theory Spec2Isabelle
  imports Complex_Main "HOL-Library.Signed_Division"
begin

section \<open>Numbers and vectors\<close>

text \<open>
  The simulation core computes in C++ \<open>double\<close> and \<open>int\<close>.  A \<open>double\<close> is read as a
  real number: rounding, infinities and NaN are outside this development, so every
  statement below is about the exact arithmetic the source code writes down.  Where the
  source divides by a quantity that may be zero, the theorem concerned says so in a
  hypothesis.  An \<open>int\<close> is read as an integer; the operators \<open>/\<close> and \<open>%\<close> on \<open>int\<close>
  truncate towards zero and are written \<open>sdiv\<close> and \<open>smod\<close>.
\<close>

type_synonym Vector3d = "real \<times> real \<times> real"
type_synonym Vector3i = "int \<times> int \<times> int"

text \<open>\<open>v[i]\<close> for \<open>i\<close> in 0, 1, 2.\<close>

fun vec_at :: "Vector3d \<Rightarrow> nat \<Rightarrow> real" where
  "vec_at (a, b, c) i = (if i = 0 then a else if i = 1 then b else c)"

text \<open>\<open>v[i] = w\<close>.\<close>

fun vec_set :: "Vector3d \<Rightarrow> nat \<Rightarrow> real \<Rightarrow> Vector3d" where
  "vec_set (a, b, c) i w = (if i = 0 then (w, b, c) else if i = 1 then (a, w, c) else (a, b, w))"


fun vec_sub :: "Vector3d \<Rightarrow> Vector3d \<Rightarrow> Vector3d" where
  "vec_sub (a, b, c) (a', b', c') = (a - a', b - b', c - c')"

fun vec_scale :: "real \<Rightarrow> Vector3d \<Rightarrow> Vector3d" where
  "vec_scale s (a, b, c) = (s * a, s * b, s * c)"

definition vec_zero :: Vector3d where
  "vec_zero = (0, 0, 0)"

text \<open>\<open>Utils::sqr\<close>.\<close>

definition sqr :: "real \<Rightarrow> real" where
  "sqr x = x * x"

text \<open>\<open>Utils::Vector::norm2\<close> and \<open>Utils::Vector::norm\<close>.\<close>

fun norm2 :: "Vector3d \<Rightarrow> real" where
  "norm2 (a, b, c) = a * a + b * b + c * c"

definition vec_norm :: "Vector3d \<Rightarrow> real" where
  "vec_norm v = sqrt (norm2 v)"


text \<open>The values of the 32-bit type \<open>int\<close>.\<close>

definition fits_int :: "int \<Rightarrow> bool" where
  "fits_int k \<longleftrightarrow> - (2 ^ 31) \<le> k \<and> k \<le> 2 ^ 31 - 1"

text \<open>
  \<open>(int) x\<close> for a \<open>double x\<close>: the digits after the point are dropped.  Where the result is
  not a value of \<open>int\<close> C++ leaves the conversion undefined; what it yields there is the
  parameter \<open>undef\<close>.
\<close>

definition double_to_int :: "(real \<Rightarrow> int) \<Rightarrow> real \<Rightarrow> int" where
  "double_to_int undef x =
     (let k = (if 0 \<le> x then \<lfloor>x\<rfloor> else \<lceil>x\<rceil>)
      in if fits_int k then k else undef x)"


section \<open>Quartic bond (quartic.hpp)\<close>

record Quartic_bond_parameters =
  quartic_k0 :: real
  quartic_k1 :: real
  quartic_r :: real
  quartic_r_cut :: real

text \<open>
  Both routines return an \<open>int\<close> and write through an output pointer.  The model takes
  the value the output location holds before the call and returns the return code
  together with the value it holds afterwards.
\<close>

definition calc_quartic_pair_force ::
  "Quartic_bond_parameters \<Rightarrow> Vector3d \<Rightarrow> Vector3d \<Rightarrow> int \<times> Vector3d" where
  "calc_quartic_pair_force iaparams dx force =
     (let dist = vec_norm dx in
      if quartic_r_cut iaparams > 0 \<and> dist > quartic_r_cut iaparams then (1, force)
      else
        let dr = dist - quartic_r iaparams;
            fac = (quartic_k0 iaparams * dr + quartic_k1 iaparams * dr * dr * dr) / dist
        in (0, (- fac * vec_at dx 0, - fac * vec_at dx 1, - fac * vec_at dx 2)))"

definition quartic_pair_energy ::
  "Quartic_bond_parameters \<Rightarrow> Vector3d \<Rightarrow> real \<Rightarrow> int \<times> real" where
  "quartic_pair_energy iaparams dx energy =
     (let dist = vec_norm dx in
      if quartic_r_cut iaparams > 0 \<and> dist > quartic_r_cut iaparams then (1, energy)
      else
        let dr2 = sqr (dist - quartic_r iaparams)
        in (0, 0.5 * quartic_k0 iaparams * dr2 + 0.25 * quartic_k1 iaparams * sqr dr2))"


section \<open>Particles and integrator state\<close>

unbundle bit_operations_syntax

text \<open>
  The fields of \<open>Particle\<close> that the routines below read or write: \<open>p.r.p\<close>, \<open>p.m.v\<close>,
  \<open>p.f.f\<close>, \<open>p.f.torque\<close>, \<open>p.l.p_old\<close>, \<open>p.l.i\<close>, \<open>p.p.mass\<close>, \<open>p.p.ext_flag\<close>,
  \<open>p.p.is_virtual\<close>, \<open>p.p.bond_site\<close> and \<open>p.p.identity\<close>.  The build modelled is the one
  with \<open>EXTERNAL_FORCES\<close>, \<open>VIRTUAL_SITES\<close>, \<open>ROTATION\<close>, \<open>NPT\<close>, \<open>BOND_CONSTRAINT\<close>,
  \<open>COLLISION_DETECTION\<close>, \<open>DPD\<close> and \<open>AFFINITY\<close> switched on, so that every guarded
  statement of the sources is present.
\<close>

record Particle =
  r_p :: Vector3d
  m_v :: Vector3d
  f_f :: Vector3d
  f_torque :: Vector3d
  l_p_old :: Vector3d
  l_i :: Vector3i
  p_mass :: real
  p_ext_flag :: int
  p_is_virtual :: bool
  p_bond_site :: Vector3d
  p_identity :: int

text \<open>
  \<open>integ_switch\<close> is an \<open>int\<close> that holds one of three macros of integrate.hpp; the model
  gives it the datatype of their names.
\<close>

datatype integ_method =
  INTEG_METHOD_NPT_ISO | INTEG_METHOD_NVT | INTEG_METHOD_STEEPEST_DESCENT

record nptiso_struct =
  npt_piston :: real
  npt_inv_piston :: real
  npt_volume :: real
  npt_p_ext :: real
  npt_p_inst :: real
  npt_p_inst_av :: real
  npt_p_diff :: real
  npt_p_vir :: Vector3d
  npt_p_vel :: Vector3d
  npt_invalidate_p_vel :: int
  npt_geometry :: int
  npt_nptgeom_dir :: Vector3i
  npt_dimension :: int
  npt_cubic_box :: int
  npt_non_const_dim :: int

record MinimizeEnergyParameters =
  sd_f_max :: real
  sd_gamma :: real
  sd_max_steps :: int
  sd_max_displacement :: real

text \<open>The one message integrate.cpp's propagators queue through \<open>runtimeErrorMsg()\<close>:
  ``your choice of piston= ..., dt= ..., p_diff= ... just caused the volume to become
  negative, decrease dt'', with the three numbers it prints.\<close>

datatype runtime_error = Volume_became_negative real real real

text \<open>
  The file-level variables of integrate.cpp, the globals of other files that its
  routines touch (\<open>nptiso\<close>, \<open>box_geo.length()\<close>, the local particles, the runtime error
  queue, \<open>this_node\<close>, \<open>n_part\<close>, \<open>n_rigidbonds\<close>, \<open>thermo_switch\<close>, the steepest descent
  parameters) and, in \<open>world\<close>, everything else the program holds.  The field
  \<open>resort_local\<close> records that \<open>set_resort_particles(Cells::RESORT_LOCAL)\<close> has been called.
\<close>

record 'w integ_state =
  integ_switch :: integ_method
  time_step :: real
  sim_time :: real
  skin :: real
  skin2 :: real
  n_verlet_updates :: int
  verlet_reuse :: real
  recalc_forces :: int
  set_py_interrupt :: bool
  ctrl_C :: int
  nptiso :: nptiso_struct
  box_l :: Vector3d
  local_particles :: "Particle list"
  resort_local :: bool
  runtime_errors :: "runtime_error list"
  this_node :: int
  n_part :: int
  n_rigidbonds :: int
  thermo_switch :: int
  sd_params :: MinimizeEnergyParameters
  world :: 'w

text \<open>
  Routines that integrate.cpp and minimize_energy.cpp call and that are defined in other
  files.  Each is a step on the state whose effect is a parameter.  The asynchronous
  write of the SIGINT handler to \<open>ctrl_C\<close> is part of these steps.
\<close>

datatype external =
    On_integration_start | Thermo_heat_up | Thermo_cool_down
  | Lb_lbcoupling_deactivate | Lb_lbcoupling_activate
  | Lb_lbfluid_propagate | Lb_lbcoupling_propagate
  | Ghost_communicator_update_ghost_pos
  | Virtual_sites_update bool | Virtual_sites_after_force_calc
  | Virtual_sites_after_lb_propagation
  | Cells_update_ghosts | Force_calc
  | Convert_initial_torques | Convert_torques_propagate_omega
  | Save_old_pos | Correct_pos_shake | Correct_vel_shake
  | Langevin_rng_counter_increment | Dpd_rng_counter_increment
  | Handle_collisions
  | Grid_changed_box_l | Recalc_maximal_cutoff | Cells_on_geometry_change_fast

text \<open>
  What the sources take from outside: the macros \<open>COORD_FIXED\<close>, \<open>THERMO_LANGEVIN\<close> and
  \<open>THERMO_DPD\<close>, the thermostat terms, the per-particle rotation routines, the queries of
  the virtual sites implementation, \<open>check_runtime_errors\<close>, and the results of the
  collective MPI operations (\<open>mpi_reduce_sum x\<close> and \<open>mpi_all_reduce_max x\<close> are the
  results for the local contribution \<open>x\<close>; \<open>root_scal\<close>, \<open>root_box_l\<close> and \<open>root_nptiso\<close> are
  what rank 0 broadcasts to the other ranks).
\<close>

record 'w environment =
  COORD_FIXED :: "nat \<Rightarrow> int"
  THERMO_LANGEVIN :: int
  THERMO_DPD :: int
  ext :: "external \<Rightarrow> 'w integ_state \<Rightarrow> 'w integ_state"
  check_runtime_errors :: "'w integ_state \<Rightarrow> int"
  friction_therm0_nptiso :: "real \<Rightarrow> real"
  friction_thermV_nptiso :: "real \<Rightarrow> real"
  propagate_omega_quat_particle :: "Particle \<Rightarrow> Particle"
  local_rotate_particle :: "Particle \<Rightarrow> Vector3d \<Rightarrow> real \<Rightarrow> Particle"
  virtual_sites_is_relative :: bool
  virtual_sites_need_ghost_comm_before_vel_update :: bool
  mpi_reduce_sum :: "real \<Rightarrow> real"
  mpi_all_reduce_max :: "real \<Rightarrow> real"
  root_scal :: Vector3d
  root_box_l :: Vector3d
  root_nptiso :: "real \<times> real \<times> real \<times> real"

text \<open>\<open>v[i]\<close> on an integer vector.\<close>

fun ivec_at :: "Vector3i \<Rightarrow> nat \<Rightarrow> int" where
  "ivec_at (a, b, c) i = (if i = 0 then a else if i = 1 then b else c)"

text \<open>\<open>!(p.p.ext_flag & COORD_FIXED(j))\<close>.\<close>

definition coord_free :: "'w environment \<Rightarrow> Particle \<Rightarrow> nat \<Rightarrow> bool" where
  "coord_free E p j \<longleftrightarrow> (p_ext_flag p AND COORD_FIXED E j) = 0"


section \<open>Steepest descent (minimize_energy.cpp)\<close>

text \<open>\<open>boost::algorithm::clamp (val, lo, hi)\<close>.\<close>

definition clamp :: "real \<Rightarrow> real \<Rightarrow> real \<Rightarrow> real" where
  "clamp val lo hi = (if val < lo then lo else if hi < val then hi else val)"

text \<open>\<open>std::numeric_limits<double>::max()\<close>.\<close>

definition DBL_MAX :: real where
  "DBL_MAX = (2 - 1 / 2 ^ 52) * 2 ^ 1023"

text \<open>\<open>Vector / scalar\<close>.\<close>

fun vec_div :: "Vector3d \<Rightarrow> real \<Rightarrow> Vector3d" where
  "vec_div (a, b, c) l = (a / l, b / l, c / l)"

text \<open>The body of the loop over the Cartesian coordinates: the particle and the running
  sum \<open>f\<close> of squared force components.\<close>

fun sd_axis ::
  "'w environment \<Rightarrow> MinimizeEnergyParameters \<Rightarrow> nat \<Rightarrow> Particle \<times> real \<Rightarrow> Particle \<times> real" where
  "sd_axis E params j (p, f) =
     (if coord_free E p j \<and> \<not> p_is_virtual p then
        let f' = f + sqr (vec_at (f_f p) j);
            dp = clamp (sd_gamma params * vec_at (f_f p) j)
                       (- sd_max_displacement params) (sd_max_displacement params)
        in (p\<lparr>r_p := vec_set (r_p p) j (vec_at (r_p p) j + dp)\<rparr>, f')
      else (p, f))"

text \<open>The rotational increment: the particle after it and the squared torque \<open>t\<close>.\<close>

definition sd_rotate ::
  "'w environment \<Rightarrow> MinimizeEnergyParameters \<Rightarrow> Particle \<Rightarrow> Particle \<times> real" where
  "sd_rotate E params p =
     (let dq = vec_scale (sd_gamma params) (f_torque p);
          t = norm2 (f_torque p);
          l = vec_norm dq
      in (if l > 0 then
            let axis = vec_div dq l;
                angle = clamp l (- sd_max_displacement params) (sd_max_displacement params)
            in local_rotate_particle E p axis angle
          else p, t))"

text \<open>The loop over the local particles, with the running maximum \<open>f_max\<close>.\<close>

fun sd_particles ::
  "'w environment \<Rightarrow> MinimizeEnergyParameters \<Rightarrow> Particle list \<Rightarrow> real \<Rightarrow> Particle list \<times> real" where
  "sd_particles E params [] f_max = ([], f_max)"
| "sd_particles E params (p # ps) f_max =
     (let (p1, f) = fold (sd_axis E params) [0, 1, 2] (p, 0);
          (p2, t) = sd_rotate E params p1;
          f_max1 = max f_max t;
          f_max2 = max f_max1 f;
          (ps', f_max') = sd_particles E params ps f_max2
      in (p2 # ps', f_max'))"

text \<open>The state after the step and the value returned (converged or not).  The static
  pointer \<open>params\<close> is the field \<open>sd_params\<close>: the steepest descent mode is entered through
  \<open>minimize_energy\<close>, which allocates it first.\<close>

definition steepest_descent_step :: "'w environment \<Rightarrow> 'w integ_state \<Rightarrow> 'w integ_state \<times> bool" where
  "steepest_descent_step E s =
     (let (ps, f_max) = sd_particles E (sd_params s) (local_particles s) (- DBL_MAX);
          s1 = s\<lparr>local_particles := ps, resort_local := True\<rparr>;
          f_max_global = mpi_all_reduce_max E f_max
      in (s1, sqrt f_max_global < sd_f_max (sd_params s)))"


section \<open>Velocity Verlet propagators (integrate.cpp)\<close>

text \<open>Body of the coordinate loop of \<open>propagate_vel_pos\<close>.\<close>

definition vel_pos_axis :: "'w environment \<Rightarrow> real \<Rightarrow> nat \<Rightarrow> Particle \<Rightarrow> Particle" where
  "vel_pos_axis E dt j p =
     (if coord_free E p j then
        let p1 = p\<lparr>m_v := vec_set (m_v p) j
                         (vec_at (m_v p) j + 0.5 * dt * vec_at (f_f p) j / p_mass p)\<rparr>
        in p1\<lparr>r_p := vec_set (r_p p1) j (vec_at (r_p p1) j + dt * vec_at (m_v p1) j)\<rparr>
      else p)"

text \<open>The Verlet criterion as \<open>propagate_vel_pos\<close> writes it.\<close>

definition verlet_criterion :: "real \<Rightarrow> Particle \<Rightarrow> bool" where
  "verlet_criterion sk2 p \<longleftrightarrow>
     sqr (vec_at (r_p p) 0 - vec_at (l_p_old p) 0)
       + sqr (vec_at (r_p p) 1 - vec_at (l_p_old p) 1)
       + sqr (vec_at (r_p p) 2 - vec_at (l_p_old p) 2) > sk2"

text \<open>The particle loop of \<open>propagate_vel_pos\<close>: the particles and the resort flag.\<close>

fun propagate_vel_pos_particles ::
  "'w environment \<Rightarrow> real \<Rightarrow> real \<Rightarrow> Particle list \<Rightarrow> bool \<Rightarrow> Particle list \<times> bool" where
  "propagate_vel_pos_particles E dt sk2 [] resort = ([], resort)"
| "propagate_vel_pos_particles E dt sk2 (p # ps) resort =
     (let p0 = propagate_omega_quat_particle E p in
      if p_is_virtual p0 then
        let (ps', resort') = propagate_vel_pos_particles E dt sk2 ps resort
        in (p0 # ps', resort')
      else
        let p1 = fold (vel_pos_axis E dt) [0, 1, 2] p0;
            resort1 = (if verlet_criterion sk2 p1 then True else resort);
            (ps', resort') = propagate_vel_pos_particles E dt sk2 ps resort1
        in (p1 # ps', resort'))"

definition propagate_vel_pos :: "'w environment \<Rightarrow> 'w integ_state \<Rightarrow> 'w integ_state" where
  "propagate_vel_pos E s =
     (let (ps, resort) =
            propagate_vel_pos_particles E (time_step s) (skin2 s) (local_particles s) (resort_local s)
      in s\<lparr>local_particles := ps, resort_local := resort\<rparr>)"


text \<open>\<open>nptiso.geometry & nptiso.nptgeom_dir[j]\<close>.\<close>

definition npt_axis_fluctuates :: "nptiso_struct \<Rightarrow> nat \<Rightarrow> bool" where
  "npt_axis_fluctuates n j \<longleftrightarrow> (npt_geometry n AND ivec_at (npt_nptgeom_dir n) j) \<noteq> 0"

text \<open>Body of the loop of \<open>finalize_p_inst_npt\<close>.\<close>

definition finalize_axis :: "real \<Rightarrow> nat \<Rightarrow> nptiso_struct \<Rightarrow> nptiso_struct" where
  "finalize_axis dt i n =
     (if npt_axis_fluctuates n i then
        let n1 = n\<lparr>npt_p_vel := vec_set (npt_p_vel n) i (vec_at (npt_p_vel n) i / sqr dt)\<rparr>
        in n1\<lparr>npt_p_inst := npt_p_inst n1 + vec_at (npt_p_vir n1) i + vec_at (npt_p_vel n1) i\<rparr>
      else n)"

definition finalize_p_inst_npt :: "'w environment \<Rightarrow> 'w integ_state \<Rightarrow> 'w integ_state" where
  "finalize_p_inst_npt E s =
     (if integ_switch s = INTEG_METHOD_NPT_ISO then
        let n0 = (nptiso s)\<lparr>npt_p_inst := 0\<rparr>;
            n1 = fold (finalize_axis (time_step s)) [0, 1, 2] n0;
            p_tmp = mpi_reduce_sum E (npt_p_inst n1);
            n2 = (if this_node s = 0 then
                    let n' = n1\<lparr>npt_p_inst := p_tmp / (real_of_int (npt_dimension n1) * npt_volume n1)\<rparr>
                    in n'\<lparr>npt_p_diff := npt_p_diff n'
                                 + (npt_p_inst n' - npt_p_ext n') * 0.5 * time_step s
                                 + friction_thermV_nptiso E (npt_p_diff n')\<rparr>
                  else n1)
        in s\<lparr>nptiso := n2\<rparr>
      else s)"

text \<open>
  The block of \<open>propagate_press_box_pos_and_rescale_npt\<close> that adjusts the volume and
  prepares the rescaling (the statements under the first \<open>if (this_node == 0)\<close>): the state
  after it, the local array \<open>scal\<close> and the local \<open>L_new\<close>.  \<open>pow\<close> is read as \<open>powr\<close>; the
  box length is indexed by \<open>nptiso.non_const_dim\<close>, which the NPT setup routine leaves in 0..2.
\<close>

definition npt_adjust_volume :: "'w integ_state \<Rightarrow> 'w integ_state \<times> Vector3d \<times> real" where
  "npt_adjust_volume s =
     (if this_node s = 0 then
        let dt = time_step s;
            n = nptiso s;
            n1 = n\<lparr>npt_volume := npt_volume n + npt_inv_piston n * npt_p_diff n * 0.5 * dt\<rparr>;
            scal2 = sqr (vec_at (box_l s) (nat (npt_non_const_dim n1)))
                      / (npt_volume n1 powr (2 / real_of_int (npt_dimension n1)));
            n2 = n1\<lparr>npt_volume := npt_volume n1 + npt_inv_piston n1 * npt_p_diff n1 * 0.5 * dt\<rparr>;
            (s3, scal2') =
              (if npt_volume n2 < 0 then
                 (s\<lparr>runtime_errors := runtime_errors s
                        @ [Volume_became_negative (npt_piston n2) dt (npt_p_diff n2)],
                    nptiso := n2\<lparr>npt_volume :=
                                  vec_at (box_l s) 0 * vec_at (box_l s) 1 * vec_at (box_l s) 2\<rparr>\<rparr>,
                  1)
               else (s\<lparr>nptiso := n2\<rparr>, scal2));
            L_new = npt_volume (nptiso s3) powr (1 / real_of_int (npt_dimension (nptiso s3)));
            scal1 = L_new / vec_at (box_l s3) (nat (npt_non_const_dim (nptiso s3)));
            scal0 = 1 / scal1
        in (s3, (scal0, scal1, scal2'), L_new)
      else (s, (0, 0, 0), 0))"

text \<open>Body of the coordinate loop that propagates and rescales one particle.\<close>

definition npt_rescale_axis ::
  "'w environment \<Rightarrow> nptiso_struct \<Rightarrow> real \<Rightarrow> Vector3d \<Rightarrow> nat \<Rightarrow> Particle \<Rightarrow> Particle" where
  "npt_rescale_axis E n dt scal j p =
     (if coord_free E p j then
        if npt_axis_fluctuates n j then
          let p1 = p\<lparr>r_p := vec_set (r_p p) j
                        (vec_at scal 1 * (vec_at (r_p p) j + vec_at scal 2 * vec_at (m_v p) j * dt))\<rparr>;
              p2 = p1\<lparr>l_p_old := vec_set (l_p_old p1) j (vec_at (l_p_old p1) j * vec_at scal 1)\<rparr>
          in p2\<lparr>m_v := vec_set (m_v p2) j (vec_at (m_v p2) j * vec_at scal 0)\<rparr>
        else p\<lparr>r_p := vec_set (r_p p) j (vec_at (r_p p) j + vec_at (m_v p) j * dt)\<rparr>
      else p)"

definition npt_rescale_particle ::
  "'w environment \<Rightarrow> nptiso_struct \<Rightarrow> real \<Rightarrow> Vector3d \<Rightarrow> Particle \<Rightarrow> Particle" where
  "npt_rescale_particle E n dt scal p =
     (if p_is_virtual p then p else fold (npt_rescale_axis E n dt scal) [0, 1, 2] p)"

text \<open>Body of the loop that applies the new volume to the box length.\<close>

definition new_box_axis :: "nptiso_struct \<Rightarrow> real \<Rightarrow> nat \<Rightarrow> Vector3d \<Rightarrow> Vector3d" where
  "new_box_axis n L_new i new_box =
     (if npt_axis_fluctuates n i then vec_set new_box i L_new
      else if npt_cubic_box n \<noteq> 0 then vec_set new_box i L_new
      else new_box)"

definition propagate_press_box_pos_and_rescale_npt ::
  "'w environment \<Rightarrow> 'w integ_state \<Rightarrow> 'w integ_state" where
  "propagate_press_box_pos_and_rescale_npt E s =
     (if integ_switch s = INTEG_METHOD_NPT_ISO then
        let s1 = finalize_p_inst_npt E s;
            (s2, scal_local, L_new) = npt_adjust_volume s1;
            scal = (if this_node s2 = 0 then scal_local else root_scal E);
            s3 = s2\<lparr>local_particles :=
                      map (npt_rescale_particle E (nptiso s2) (time_step s2) scal) (local_particles s2)\<rparr>;
            s4 = s3\<lparr>resort_local := True\<rparr>;
            s5 = (if this_node s4 = 0 then
                    s4\<lparr>box_l := fold (new_box_axis (nptiso s4) L_new) [0, 1, 2] (box_l s4)\<rparr>
                  else s4);
            s6 = (if this_node s5 = 0 then s5 else s5\<lparr>box_l := root_box_l E\<rparr>);
            s7 = ext E Grid_changed_box_l s6;
            s8 = ext E Recalc_maximal_cutoff s7
        in ext E Cells_on_geometry_change_fast s8
      else s)"


text \<open>Body of the coordinate loop of \<open>propagate_vel\<close>: the particle and \<open>nptiso.p_vel\<close>.\<close>

fun propagate_vel_axis ::
  "'w environment \<Rightarrow> integ_method \<Rightarrow> nptiso_struct \<Rightarrow> real \<Rightarrow> nat
     \<Rightarrow> Particle \<times> Vector3d \<Rightarrow> Particle \<times> Vector3d" where
  "propagate_vel_axis E sw n dt j (p, p_vel) =
     (if coord_free E p j then
        if sw = INTEG_METHOD_NPT_ISO \<and> npt_axis_fluctuates n j then
          let p1 = p\<lparr>m_v := vec_set (m_v p) j
                        (vec_at (m_v p) j + (vec_at (f_f p) j * 0.5 * dt / p_mass p
                           + friction_therm0_nptiso E (vec_at (m_v p) j) / p_mass p))\<rparr>
          in (p1, vec_set p_vel j (vec_at p_vel j + sqr (vec_at (m_v p1) j * dt) * p_mass p1))
        else
          (p\<lparr>m_v := vec_set (m_v p) j (vec_at (m_v p) j + 0.5 * dt * vec_at (f_f p) j / p_mass p)\<rparr>,
           p_vel)
      else (p, p_vel))"

fun propagate_vel_particles ::
  "'w environment \<Rightarrow> integ_method \<Rightarrow> nptiso_struct \<Rightarrow> real \<Rightarrow> Particle list \<Rightarrow> Vector3d
     \<Rightarrow> Particle list \<times> Vector3d" where
  "propagate_vel_particles E sw n dt [] p_vel = ([], p_vel)"
| "propagate_vel_particles E sw n dt (p # ps) p_vel =
     (let p0 = propagate_omega_quat_particle E p in
      if p_is_virtual p0 then
        let (ps', p_vel') = propagate_vel_particles E sw n dt ps p_vel in (p0 # ps', p_vel')
      else
        let (p1, p_vel1) = fold (propagate_vel_axis E sw n dt) [0, 1, 2] (p0, p_vel);
            (ps', p_vel') = propagate_vel_particles E sw n dt ps p_vel1
        in (p1 # ps', p_vel'))"

definition propagate_vel :: "'w environment \<Rightarrow> 'w integ_state \<Rightarrow> 'w integ_state" where
  "propagate_vel E s =
     (let (ps, p_vel) =
            propagate_vel_particles E (integ_switch s) (nptiso s) (time_step s)
              (local_particles s) (0, 0, 0)
      in s\<lparr>local_particles := ps, nptiso := (nptiso s)\<lparr>npt_p_vel := p_vel\<rparr>\<rparr>)"

text \<open>The NVT branch of \<open>propagate_pos\<close>.\<close>

definition pos_axis :: "'w environment \<Rightarrow> real \<Rightarrow> nat \<Rightarrow> Particle \<Rightarrow> Particle" where
  "pos_axis E dt j p =
     (if coord_free E p j then
        p\<lparr>r_p := vec_set (r_p p) j (vec_at (r_p p) j + dt * vec_at (m_v p) j)\<rparr>
      else p)"

fun propagate_pos_particles ::
  "'w environment \<Rightarrow> real \<Rightarrow> real \<Rightarrow> Particle list \<Rightarrow> bool \<Rightarrow> Particle list \<times> bool" where
  "propagate_pos_particles E dt sk2 [] resort = ([], resort)"
| "propagate_pos_particles E dt sk2 (p # ps) resort =
     (if p_is_virtual p then
        let (ps', resort') = propagate_pos_particles E dt sk2 ps resort in (p # ps', resort')
      else
        let p1 = fold (pos_axis E dt) [0, 1, 2] p;
            resort1 = (if norm2 (vec_sub (r_p p1) (l_p_old p1)) > sk2 then True else resort);
            (ps', resort') = propagate_pos_particles E dt sk2 ps resort1
        in (p1 # ps', resort'))"

definition propagate_pos :: "'w environment \<Rightarrow> 'w integ_state \<Rightarrow> 'w integ_state" where
  "propagate_pos E s =
     (if integ_switch s = INTEG_METHOD_NPT_ISO then propagate_press_box_pos_and_rescale_npt E s
      else
        let (ps, resort) =
              propagate_pos_particles E (time_step s) (skin2 s) (local_particles s) (resort_local s)
        in s\<lparr>local_particles := ps, resort_local := resort\<rparr>)"

text \<open>Body of the coordinate loop of \<open>propagate_vel_finalize_p_inst\<close>.\<close>

fun vel_finalize_axis ::
  "'w environment \<Rightarrow> integ_method \<Rightarrow> nptiso_struct \<Rightarrow> real \<Rightarrow> nat
     \<Rightarrow> Particle \<times> Vector3d \<Rightarrow> Particle \<times> Vector3d" where
  "vel_finalize_axis E sw n dt j (p, p_vel) =
     (if coord_free E p j then
        if sw = INTEG_METHOD_NPT_ISO \<and> npt_axis_fluctuates n j then
          let p_vel1 = vec_set p_vel j (vec_at p_vel j + sqr (vec_at (m_v p) j * dt) * p_mass p)
          in (p\<lparr>m_v := vec_set (m_v p) j
                    (vec_at (m_v p) j + (0.5 * dt / p_mass p * vec_at (f_f p) j
                       + friction_therm0_nptiso E (vec_at (m_v p) j) / p_mass p))\<rparr>,
              p_vel1)
        else
          (p\<lparr>m_v := vec_set (m_v p) j (vec_at (m_v p) j + 0.5 * dt * vec_at (f_f p) j / p_mass p)\<rparr>,
           p_vel)
      else (p, p_vel))"

fun vel_finalize_particles ::
  "'w environment \<Rightarrow> integ_method \<Rightarrow> nptiso_struct \<Rightarrow> real \<Rightarrow> Particle list \<Rightarrow> Vector3d
     \<Rightarrow> Particle list \<times> Vector3d" where
  "vel_finalize_particles E sw n dt [] p_vel = ([], p_vel)"
| "vel_finalize_particles E sw n dt (p # ps) p_vel =
     (if p_is_virtual p then
        let (ps', p_vel') = vel_finalize_particles E sw n dt ps p_vel in (p # ps', p_vel')
      else
        let (p1, p_vel1) = fold (vel_finalize_axis E sw n dt) [0, 1, 2] (p, p_vel);
            (ps', p_vel') = vel_finalize_particles E sw n dt ps p_vel1
        in (p1 # ps', p_vel'))"

definition propagate_vel_finalize_p_inst :: "'w environment \<Rightarrow> 'w integ_state \<Rightarrow> 'w integ_state" where
  "propagate_vel_finalize_p_inst E s =
     (let n0 = (if integ_switch s = INTEG_METHOD_NPT_ISO then (nptiso s)\<lparr>npt_p_vel := (0, 0, 0)\<rparr>
                else nptiso s);
          (ps, p_vel) =
            vel_finalize_particles E (integ_switch s) n0 (time_step s) (local_particles s) (npt_p_vel n0);
          s1 = s\<lparr>local_particles := ps, nptiso := n0\<lparr>npt_p_vel := p_vel\<rparr>\<rparr>
      in finalize_p_inst_npt E s1)"

definition philox_counter_increment :: "'w environment \<Rightarrow> 'w integ_state \<Rightarrow> 'w integ_state" where
  "philox_counter_increment E s =
     (if (thermo_switch s AND THERMO_LANGEVIN E) \<noteq> 0 then ext E Langevin_rng_counter_increment s
      else if (thermo_switch s AND THERMO_DPD E) \<noteq> 0 then ext E Dpd_rng_counter_increment s
      else s)"


section \<open>The integration loop (integrate.cpp, \<open>integrate_vv\<close>)\<close>

text \<open>
  Steps 1 and 2 of the velocity Verlet scheme inside the loop body: the state after them
  and whether the loop is left by the \<open>break\<close> of the steepest descent branch.
\<close>

definition integrate_move :: "'w environment \<Rightarrow> 'w integ_state \<Rightarrow> 'w integ_state \<times> bool" where
  "integrate_move E s =
     (if integ_switch s = INTEG_METHOD_NPT_ISO then
        let s1 = propagate_pos E (propagate_vel E s)
        in (s1\<lparr>sim_time := sim_time s1 + time_step s1\<rparr>, False)
      else if integ_switch s = INTEG_METHOD_STEEPEST_DESCENT then
        steepest_descent_step E s
      else
        let s1 = propagate_vel_pos E s
        in (s1\<lparr>sim_time := sim_time s1 + time_step s1\<rparr>, False))"

text \<open>The loop body from \<open>philox_counter_increment\<close> to its end.\<close>

definition integrate_after_move :: "'w environment \<Rightarrow> 'w integ_state \<Rightarrow> 'w integ_state \<times> bool" where
  "integrate_after_move E s =
     (let s1 = philox_counter_increment E s;
          s2 = (if n_rigidbonds s1 \<noteq> 0 then ext E Correct_pos_shake (ext E Cells_update_ghosts s1)
                else s1);
          s3 = (if n_part s2 > 0 then ext E Lb_lbcoupling_activate s2 else s2);
          s4 = (if virtual_sites_is_relative E then ext E Ghost_communicator_update_ghost_pos s3
                else s3);
          s5 = ext E (Virtual_sites_update True) s4;
          s6 = ext E Cells_update_ghosts s5;
          s7 = ext E Force_calc s6;
          s8 = ext E Virtual_sites_after_force_calc s7;
          s9 = (if integ_switch s8 \<noteq> INTEG_METHOD_STEEPEST_DESCENT then
                  ext E Convert_torques_propagate_omega (propagate_vel_finalize_p_inst E s8)
                else s8);
          s10 = (if n_rigidbonds s9 \<noteq> 0 then
                   ext E Correct_vel_shake (ext E Ghost_communicator_update_ghost_pos s9)
                 else s9);
          s11 = (if integ_switch s10 \<noteq> INTEG_METHOD_STEEPEST_DESCENT then
                   ext E Virtual_sites_after_lb_propagation
                     (ext E Lb_lbcoupling_propagate (ext E Lb_lbfluid_propagate s10))
                 else s10);
          s12 = (if this_node s11 = 0 \<and> integ_switch s11 = INTEG_METHOD_NPT_ISO then
                   s11\<lparr>nptiso := (nptiso s11)\<lparr>npt_p_inst_av :=
                                     npt_p_inst_av (nptiso s11) + npt_p_inst (nptiso s11)\<rparr>\<rparr>
                 else s11);
          s13 = (if integ_switch s12 \<noteq> INTEG_METHOD_STEEPEST_DESCENT then ext E Handle_collisions s12
                 else s12)
      in if check_runtime_errors E s13 \<noteq> 0 then (s13, True)
         else if ctrl_C s13 = 1 then (s13\<lparr>ctrl_C := 0, set_py_interrupt := True\<rparr>, True)
         else (s13, False))"

text \<open>One pass through the loop body: the state after it and whether a \<open>break\<close> was taken.\<close>

definition integration_step :: "'w environment \<Rightarrow> 'w integ_state \<Rightarrow> 'w integ_state \<times> bool" where
  "integration_step E s =
     (let s1 = (if n_rigidbonds s \<noteq> 0 then ext E Save_old_pos s else s);
          (s2, brk) = integrate_move E s1
      in if brk then (s2, True) else integrate_after_move E s2)"

text \<open>
  \<open>for (int step = 0; step < n_steps; step++)\<close> with the number of steps still to run as
  the argument.  Beside the final state the function returns the number of passes
  through the loop body that were begun.
\<close>

fun integration_loop :: "'w environment \<Rightarrow> nat \<Rightarrow> 'w integ_state \<Rightarrow> 'w integ_state \<times> nat" where
  "integration_loop E 0 s = (s, 0)"
| "integration_loop E (Suc k) s =
     (let (s1, brk) = integration_step E s
      in if brk then (s1, 1)
         else let (s2, c) = integration_loop E k s1 in (s2, Suc c))"

text \<open>The initial force calculation of \<open>integrate_vv\<close>.\<close>

definition initial_force_calculation :: "'w environment \<Rightarrow> 'w integ_state \<Rightarrow> 'w integ_state" where
  "initial_force_calculation E s =
     (let s1 = ext E Lb_lbcoupling_deactivate (ext E Thermo_heat_up s);
          s2 = (if virtual_sites_is_relative E then ext E Ghost_communicator_update_ghost_pos s1
                else s1);
          s3 = ext E (Virtual_sites_update True) s2;
          s4 = ext E Force_calc (ext E Cells_update_ghosts s3);
          s5 = (if integ_switch s4 \<noteq> INTEG_METHOD_STEEPEST_DESCENT then ext E Convert_initial_torques s4
                else s4)
      in ext E Thermo_cool_down s5)"

text \<open>The statements of \<open>integrate_vv\<close> after the loop.\<close>

definition integrate_finish :: "'w environment \<Rightarrow> int \<Rightarrow> 'w integ_state \<Rightarrow> 'w integ_state" where
  "integrate_finish E n_steps s =
     (let s1 = (if virtual_sites_need_ghost_comm_before_vel_update E then
                  ext E Ghost_communicator_update_ghost_pos s
                else s);
          s2 = ext E (Virtual_sites_update False) s1;
          s3 = s2\<lparr>verlet_reuse := (if n_verlet_updates s2 > 0 then
                                     real_of_int n_steps / real_of_int (n_verlet_updates s2)
                                   else 0)\<rparr>
      in if integ_switch s3 = INTEG_METHOD_NPT_ISO then
           let n = (nptiso s3)\<lparr>npt_invalidate_p_vel := 0\<rparr>;
               (r_p_inst, r_p_diff, r_volume, r_p_inst_av) = root_nptiso E;
               n1 = (if this_node s3 = 0 then
                       n\<lparr>npt_p_inst_av := npt_p_inst_av n / (1.0 * real_of_int n_steps)\<rparr>
                     else
                       n\<lparr>npt_p_inst := r_p_inst, npt_p_diff := r_p_diff, npt_volume := r_volume,
                          npt_p_inst_av := r_p_inst_av\<rparr>)
           in s3\<lparr>nptiso := n1\<rparr>
         else s3)"

definition integrate_vv :: "'w environment \<Rightarrow> int \<Rightarrow> int \<Rightarrow> 'w integ_state \<Rightarrow> 'w integ_state" where
  "integrate_vv E n_steps reuse_forces s =
     (let s1 = ext E On_integration_start s in
      if check_runtime_errors E s1 \<noteq> 0 then s1
      else
        let s2 = s1\<lparr>skin2 := sqr (0.5 * skin s1)\<rparr>;
            s3 = (if reuse_forces = - 1 \<or> (recalc_forces s2 \<noteq> 0 \<and> reuse_forces \<noteq> 1) then
                    initial_force_calculation E s2
                  else s2)
        in if check_runtime_errors E s3 \<noteq> 0 then s3
           else
             let s4 = s3\<lparr>n_verlet_updates := 0\<rparr>;
                 (s5, steps_begun) = integration_loop E (nat n_steps) s4
             in integrate_finish E n_steps s5)"


section \<open>Layered cell system (layered.cpp)\<close>

definition LAYERED_BOTTOM :: int where "LAYERED_BOTTOM = 1"
definition LAYERED_TOP :: int where "LAYERED_TOP = 2"
definition LAYERED_PERIODIC :: int where "LAYERED_PERIODIC = 4"
definition LAYERED_BTM_MASK :: int where "LAYERED_BTM_MASK = LAYERED_BOTTOM OR LAYERED_PERIODIC"
definition LAYERED_TOP_MASK :: int where "LAYERED_TOP_MASK = LAYERED_TOP OR LAYERED_PERIODIC"

text \<open>The file-level variables of layered.cpp that the mapping reads, and
  \<open>local_geo.my_left()\<close>.\<close>

record layered_state =
  layered_flags :: int
  n_layers :: int
  layer_h :: real
  layer_h_i :: real
  my_left :: Vector3d

definition LAYERED_TOP_NEIGHBOR :: "layered_state \<Rightarrow> bool" where
  "LAYERED_TOP_NEIGHBOR L \<longleftrightarrow> (layered_flags L AND LAYERED_TOP_MASK) \<noteq> LAYERED_TOP"

definition LAYERED_BTM_NEIGHBOR :: "layered_state \<Rightarrow> bool" where
  "LAYERED_BTM_NEIGHBOR L \<longleftrightarrow> (layered_flags L AND LAYERED_BTM_MASK) \<noteq> LAYERED_BOTTOM"

text \<open>
  The value of \<open>cpos\<close> before the range checks.  \<open>static_cast<int>\<close> of the floor is the
  floor itself where the floor is a value of \<open>int\<close>, and the increment is exact where its
  result is one; elsewhere C++ leaves both undefined, and the statements about the
  mapping are made for positions where both are defined.
\<close>

definition layered_cpos :: "layered_state \<Rightarrow> Vector3d \<Rightarrow> int" where
  "layered_cpos L pos = \<lfloor>(vec_at pos 2 - vec_at (my_left L) 2) * layer_h_i L\<rfloor> + 1"

text \<open>The result is the index \<open>cpos\<close> of the cell \<open>&(cells[cpos])\<close> returned, or \<open>None\<close> for
  \<open>nullptr\<close>.\<close>

definition layered_position_to_cell :: "layered_state \<Rightarrow> Vector3d \<Rightarrow> int option" where
  "layered_position_to_cell L pos =
     (let cpos = layered_cpos L pos in
      if cpos < 1 then
        (if \<not> LAYERED_BTM_NEIGHBOR L then Some 1 else None)
      else if cpos > n_layers L then
        (if \<not> LAYERED_TOP_NEIGHBOR L then Some (n_layers L) else None)
      else Some cpos)"


section \<open>Dipolar P3M parameters (p3m-dipolar.cpp, \<open>dp3m_set_params\<close>)\<close>

text \<open>
  \<open>dipole.method\<close> is of the enumeration \<open>DipolarInteraction\<close> of dipole.hpp, of which
  p3m-dipolar.cpp names two enumerators; the other ones are \<open>DIPOLAR_OTHER k\<close>.
\<close>

datatype DipolarInteraction = DIPOLAR_P3M | DIPOLAR_MDLC_P3M | DIPOLAR_OTHER nat

text \<open>The fields of \<open>dp3m.params\<close> that p3m-dipolar.cpp accesses.\<close>

record P3MParameters =
  p3m_alpha_L :: real
  p3m_r_cut_iL :: real
  p3m_mesh :: Vector3i
  p3m_mesh_off :: Vector3d
  p3m_cao :: int
  p3m_inter :: int
  p3m_accuracy :: real
  p3m_epsilon :: real
  p3m_cao_cut :: Vector3d
  p3m_a :: Vector3d
  p3m_ai :: Vector3d
  p3m_alpha :: real
  p3m_r_cut :: real
  p3m_inter2 :: int
  p3m_cao3 :: int
  p3m_additional_mesh :: Vector3d

text \<open>The globals \<open>dipole.method\<close>, \<open>dp3m.params\<close> and \<open>box_geo.length()\<close>.\<close>

record dipolar_state =
  dipole_method :: DipolarInteraction
  dp3m_params :: P3MParameters
  dp_box_l :: Vector3d

text \<open>
  \<open>Dipole::set_method_local\<close> is defined in dipole.cpp, not among the sources at hand; it
  is read as the assignment to \<open>dipole.method\<close> that it is called for.
\<close>

definition set_method_local :: "DipolarInteraction \<Rightarrow> dipolar_state \<Rightarrow> dipolar_state" where
  "set_method_local m s = s\<lparr>dipole_method := m\<rparr>"

text \<open>
  The return value and the globals after the call.  \<open>mpi_bcast_coulomb_params\<close>, called
  before \<open>return 0\<close>, sends the parameters to the other ranks and leaves the globals of
  this rank as they are.  The statements from \<open>if (accuracy >= 0)\<close> to the end come first.
\<close>

definition dp3m_set_params_accuracy :: "real \<Rightarrow> dipolar_state \<Rightarrow> int \<times> dipolar_state" where
  "dp3m_set_params_accuracy accuracy s =
     (if accuracy \<ge> 0 then
        (0, s\<lparr>dp3m_params := (dp3m_params s)\<lparr>p3m_accuracy := accuracy\<rparr>\<rparr>)
      else if accuracy \<noteq> - 1 then (- 5, s)
      else (0, s))"

definition dp3m_set_params ::
  "real \<Rightarrow> int \<Rightarrow> int \<Rightarrow> real \<Rightarrow> real \<Rightarrow> dipolar_state \<Rightarrow> int \<times> dipolar_state" where
  "dp3m_set_params r_cut mesh cao alpha accuracy s =
     (let s1 = (if dipole_method s \<noteq> DIPOLAR_P3M \<and> dipole_method s \<noteq> DIPOLAR_MDLC_P3M then
                  set_method_local DIPOLAR_P3M s
                else s) in
      if r_cut < 0 then (- 1, s1)
      else if mesh < 0 then (- 2, s1)
      else if cao < 1 \<or> cao > 7 \<or> cao > mesh then (- 3, s1)
      else
        let s2 = s1\<lparr>dp3m_params := (dp3m_params s1)
                     \<lparr>p3m_r_cut := r_cut,
                      p3m_r_cut_iL := r_cut * (1 / vec_at (dp_box_l s1) 0),
                      p3m_mesh := (mesh, mesh, mesh),
                      p3m_cao := cao\<rparr>\<rparr>
        in if alpha > 0 then
             dp3m_set_params_accuracy accuracy
               (s2\<lparr>dp3m_params := (dp3m_params s2)
                     \<lparr>p3m_alpha := alpha,
                      p3m_alpha_L := alpha * vec_at (dp_box_l s2) 0\<rparr>\<rparr>)
           else if alpha \<noteq> - 1 then (- 4, s2)
           else dp3m_set_params_accuracy accuracy s2)"


section \<open>MMM2D near formula tuning (mmm2d.cpp, \<open>MMM2D_tune_near\<close>)\<close>

definition ERROR_LARGE :: int where "ERROR_LARGE = 1"
definition ERROR_BOXL :: int where "ERROR_BOXL = 2"
definition ERROR_BESSEL :: int where "ERROR_BESSEL = 3"
definition ERROR_POLY :: int where "ERROR_POLY = 4"
definition ERROR_FARC :: int where "ERROR_FARC = 5"
definition ERROR_SMALL :: int where "ERROR_SMALL = 6"
definition ERROR_ICL :: int where "ERROR_ICL = 7"

definition MAXIMAL_B_CUT :: int where "MAXIMAL_B_CUT = 50"
definition MAXIMAL_POLYGAMMA :: int where "MAXIMAL_POLYGAMMA = 100"
definition COMPLEX_STEP :: int where "COMPLEX_STEP = 16"
definition COMPLEX_FAC :: real where "COMPLEX_FAC = real_of_int COMPLEX_STEP / (0.5 + 0.01)"
definition C_2PI :: real where "C_2PI = 2 * pi"

text \<open>
  The file-level variables of mmm2d.cpp that the tuning reads or writes, and
  \<open>box_geo.length()\<close>.  The tables \<open>bon\<close> and \<open>modPsi\<close>, which \<open>prepareBernoulliNumbers\<close> and
  \<open>create_mod_psi_up_to\<close> fill and which the tuning reads through \<open>mod_psi_even\<close> only, are
  not part of the state.
\<close>

record mmm2d_state =
  mmm2d_ux :: real
  mmm2d_uy :: real
  mmm2d_max_near :: real
  mmm2d_min_far :: real
  mmm2d_part_error :: real
  mmm2d_besselCutoff :: "int list"
  mmm2d_complexCutoff :: "int list"
  mmm2d_box_l :: Vector3d

text \<open>
  What the tuning takes from other files: the Bessel function \<open>K1\<close> of specfunc.hpp, the
  value \<open>mod_psi_even (n, x)\<close> of mmm-common.hpp once \<open>create_mod_psi_up_to (n + 1)\<close> has run,
  the content of an entry that \<open>resize\<close> adds to an \<open>IntList\<close>, and the value that the
  conversion of a \<open>double\<close> to \<open>int\<close> yields where C++ leaves it undefined.
\<close>

record mmm2d_externals =
  K1 :: "real \<Rightarrow> real"
  mod_psi_even :: "int \<Rightarrow> real \<Rightarrow> real"
  fresh_entry :: int
  out_of_range_int :: "real \<Rightarrow> int"

text \<open>The \<open>do\<close> loop that determines the Bessel cutoff: the value of \<open>P\<close> when it is left.\<close>

function bessel_cutoff_loop ::
  "mmm2d_externals \<Rightarrow> mmm2d_state \<Rightarrow> real \<Rightarrow> real \<Rightarrow> real \<Rightarrow> int \<Rightarrow> int" where
  "bessel_cutoff_loop X S exponent T pref P =
     (let L = pi * mmm2d_ux S * real_of_int (P - 1);
          sum = sum_list (map (\<lambda>p. real_of_int p * exp (- exponent * real_of_int p)) [1..P]);
          err = pref * K1 X (vec_at (mmm2d_box_l S) 1 * L)
                  * (T * ((L + mmm2d_uy S) / pi * vec_at (mmm2d_box_l S) 0 - 1) + sum);
          P' = P + 1
      in if err > mmm2d_part_error S \<and> P' - 1 < MAXIMAL_B_CUT
         then bessel_cutoff_loop X S exponent T pref P'
         else P')"
  by pat_completeness auto
termination
  by (relation "measure (\<lambda>(X, S, exponent, T, pref, P). nat (MAXIMAL_B_CUT - P))") auto

declare bessel_cutoff_loop.simps [simp del]

text \<open>The \<open>do\<close> loop that determines the polygamma order: the value of \<open>n\<close> when it is left.\<close>

function polygamma_order_loop ::
  "mmm2d_externals \<Rightarrow> real \<Rightarrow> real \<Rightarrow> int \<Rightarrow> real \<Rightarrow> int" where
  "polygamma_order_loop X part_err uxrhomax2 n uxrho2m2max =
     (let err = 2 * real_of_int n * \<bar>mod_psi_even X n 0.5\<bar> * uxrho2m2max;
          uxrho2m2max' = uxrho2m2max * uxrhomax2;
          n' = n + 1
      in if err > 0.1 * part_err \<and> n' < MAXIMAL_POLYGAMMA
         then polygamma_order_loop X part_err uxrhomax2 n' uxrho2m2max'
         else n')"
  by pat_completeness auto
termination
  by (relation "measure (\<lambda>(X, part_err, uxrhomax2, n, uxrho2m2max). nat (MAXIMAL_POLYGAMMA - n))") auto

declare polygamma_order_loop.simps [simp del]

text \<open>\<open>besselCutoff.resize (P)\<close> and the loop that fills the table.\<close>

definition bessel_cutoff_table :: "mmm2d_externals \<Rightarrow> int \<Rightarrow> int list \<Rightarrow> int list" where
  "bessel_cutoff_table X P old =
     fold (\<lambda>p bc. bc[nat (p - 1) :=
                    double_to_int (out_of_range_int X) (real_of_int \<lfloor>real_of_int P / real_of_int (2 * p)\<rfloor>) + 1]) [1..P - 1]
          (take (nat P) old @ replicate (nat P - length old) (fresh_entry X))"

text \<open>The return code and the variables after the call.\<close>

definition MMM2D_tune_near :: "mmm2d_externals \<Rightarrow> real \<Rightarrow> mmm2d_state \<Rightarrow> int \<times> mmm2d_state" where
  "MMM2D_tune_near X error S =
     (if mmm2d_max_near S > vec_at (mmm2d_box_l S) 1 / 2 then (ERROR_LARGE, S)
      else if mmm2d_min_far S < 0 then (ERROR_SMALL, S)
      else if mmm2d_ux S * vec_at (mmm2d_box_l S) 1 \<ge> 3 / sqrt 2 then (ERROR_BOXL, S)
      else
        let S1 = S\<lparr>mmm2d_part_error := error / 3\<rparr>;
            exponent = pi * mmm2d_ux S1 * vec_at (mmm2d_box_l S1) 1;
            T = exp exponent / exponent;
            pref = 8 * mmm2d_ux S1 * max (C_2PI * mmm2d_ux S1) 1;
            P = bessel_cutoff_loop X S1 exponent T pref 2 - 1
        in if P = MAXIMAL_B_CUT then (ERROR_BESSEL, S1)
           else
             let S2 = S1\<lparr>mmm2d_besselCutoff := bessel_cutoff_table X P (mmm2d_besselCutoff S1)\<rparr>;
                 T' = ln (mmm2d_part_error S2 / (16 * sqrt 2) * vec_at (mmm2d_box_l S2) 0
                            * vec_at (mmm2d_box_l S2) 1);
                 S3 = S2\<lparr>mmm2d_complexCutoff :=
                          0 # map (\<lambda>i. double_to_int (out_of_range_int X)
                                       (real_of_int \<lceil>T' / ln (real_of_int i / COMPLEX_FAC)\<rceil>))
                                [1..COMPLEX_STEP]\<rparr>;
                 uxrhomax2 = sqr (mmm2d_ux S3 * vec_at (mmm2d_box_l S3) 1) / 2;
                 n = polygamma_order_loop X (mmm2d_part_error S3) uxrhomax2 1 1
             in if n = MAXIMAL_POLYGAMMA then (ERROR_POLY, S3) else (0, S3))"


section \<open>Affinity interaction (affinity.hpp, \<open>add_affinity_pair_force\<close>)\<close>
















section \<open>Dipolar P3M influence functions (p3m-dipolar.cpp)\<close>














section \<open>Notions used in the statements\<close>

text \<open>
  What the statements about the integrator assume of the routines defined in other
  files: none of them writes the simulation clock, the time step or the integrator
  switch,
\<close>

definition clock_frame :: "'w environment \<Rightarrow> bool" where
  "clock_frame E \<longleftrightarrow>
     (\<forall>x s. sim_time (ext E x s) = sim_time s \<and> time_step (ext E x s) = time_step s
            \<and> integ_switch (ext E x s) = integ_switch s)"

text \<open>and the three routines that refresh the cell geometry after a change of the box
  write neither \<open>nptiso\<close> nor the runtime error queue.\<close>

definition npt_frame :: "'w environment \<Rightarrow> bool" where
  "npt_frame E \<longleftrightarrow>
     (\<forall>x \<in> {Grid_changed_box_l, Recalc_maximal_cutoff, Cells_on_geometry_change_fast}.
        \<forall>s. nptiso (ext E x s) = nptiso s \<and> runtime_errors (ext E x s) = runtime_errors s)"

definition clock :: "'w integ_state \<Rightarrow> real \<times> real \<times> integ_method" where
  "clock s = (sim_time s, time_step s, integ_switch s)"

text \<open>The coordinate \<open>j\<close> of a particle after one steepest descent step, written out.\<close>

definition sd_moved :: "'w environment \<Rightarrow> MinimizeEnergyParameters \<Rightarrow> Particle \<Rightarrow> nat \<Rightarrow> real" where
  "sd_moved E P p j =
     (if coord_free E p j \<and> \<not> p_is_virtual p then
        vec_at (r_p p) j + clamp (sd_gamma P * vec_at (f_f p) j)
                             (- sd_max_displacement P) (sd_max_displacement P)
      else vec_at (r_p p) j)"


text \<open>The inputs that \<open>dp3m_set_params\<close> rejects.\<close>

definition dp3m_invalid_input :: "real \<Rightarrow> int \<Rightarrow> int \<Rightarrow> real \<Rightarrow> real \<Rightarrow> bool" where
  "dp3m_invalid_input r_cut mesh cao alpha accuracy \<longleftrightarrow>
     r_cut < 0 \<or> mesh < 0 \<or> cao < 1 \<or> cao > 7 \<or> cao > mesh
     \<or> (alpha \<le> 0 \<and> alpha \<noteq> - 1) \<or> (accuracy < 0 \<and> accuracy \<noteq> - 1)"












section \<open>Example inputs\<close>

text \<open>
  A run on a single rank, without thermostat, in which the routines of other files do
  nothing; \<open>COORD_FIXED(j)\<close> is \<open>2 << j\<close>, and \<open>check_runtime_errors\<close> counts the queued
  messages.
\<close>

definition example_environment :: "unit environment" where
  "example_environment =
     \<lparr>COORD_FIXED = (\<lambda>j. push_bit j 2), THERMO_LANGEVIN = 1, THERMO_DPD = 2,
      ext = (\<lambda>x s. s), check_runtime_errors = (\<lambda>s. int (length (runtime_errors s))),
      friction_therm0_nptiso = (\<lambda>v. 0), friction_thermV_nptiso = (\<lambda>v. 0),
      propagate_omega_quat_particle = (\<lambda>p. p), local_rotate_particle = (\<lambda>p axis angle. p),
      virtual_sites_is_relative = False, virtual_sites_need_ghost_comm_before_vel_update = False,
      mpi_reduce_sum = (\<lambda>x. x), mpi_all_reduce_max = (\<lambda>x. x),
      root_scal = (1, 1, 1), root_box_l = (2, 2, 2), root_nptiso = (0, 0, 0, 0)\<rparr>"

text \<open>A free particle at rest, without force, at distance 3/4 from its position at the
  last resort.\<close>

definition resting_particle :: Particle where
  "resting_particle =
     \<lparr>r_p = (3 / 4, 0, 0), m_v = (0, 0, 0), f_f = (0, 0, 0), f_torque = (0, 0, 0),
      l_p_old = (0, 0, 0), l_i = (0, 0, 0), p_mass = 1, p_ext_flag = 0, p_is_virtual = False,
      p_bond_site = (- 1, - 1, - 1), p_identity = 0\<rparr>"

text \<open>A particle whose x coordinate is fixed, with a strong force along x and z.\<close>

definition pushed_particle :: Particle where
  "pushed_particle =
     \<lparr>r_p = (0, 0, 0), m_v = (0, 0, 0), f_f = (10, 1 / 2, - 10), f_torque = (0, 0, 0),
      l_p_old = (0, 0, 0), l_i = (0, 0, 0), p_mass = 1, p_ext_flag = 2, p_is_virtual = False,
      p_bond_site = (- 1, - 1, - 1), p_identity = 1\<rparr>"

definition example_nptiso :: nptiso_struct where
  "example_nptiso =
     \<lparr>npt_piston = 1, npt_inv_piston = 1, npt_volume = 8, npt_p_ext = 0, npt_p_inst = 0,
      npt_p_inst_av = 0, npt_p_diff = - 20, npt_p_vir = (0, 0, 0), npt_p_vel = (0, 0, 0),
      npt_invalidate_p_vel = 0, npt_geometry = 7, npt_nptgeom_dir = (1, 2, 4),
      npt_dimension = 3, npt_cubic_box = 0, npt_non_const_dim = 2\<rparr>"

text \<open>An NVT state with skin 1, after \<open>integrate_vv\<close> has set \<open>skin2\<close>, holding the particle
  at rest.\<close>

definition example_state :: "unit integ_state" where
  "example_state =
     \<lparr>integ_switch = INTEG_METHOD_NVT, time_step = 1, sim_time = 0, skin = 1,
      skin2 = sqr (0.5 * 1), n_verlet_updates = 0, verlet_reuse = 0, recalc_forces = 0,
      set_py_interrupt = False, ctrl_C = 0, nptiso = example_nptiso, box_l = (2, 2, 2),
      local_particles = [resting_particle], resort_local = False, runtime_errors = [],
      this_node = 0, n_part = 1, n_rigidbonds = 0, thermo_switch = 0,
      sd_params = \<lparr>sd_f_max = 0, sd_gamma = 1, sd_max_steps = 10, sd_max_displacement = 1\<rparr>,
      world = ()\<rparr>"


text \<open>The same state in NPT mode, and in steepest descent mode holding the pushed
  particle.\<close>

definition npt_example_state :: "unit integ_state" where
  "npt_example_state = example_state\<lparr>integ_switch := INTEG_METHOD_NPT_ISO\<rparr>"

definition sd_example_state :: "unit integ_state" where
  "sd_example_state =
     example_state\<lparr>integ_switch := INTEG_METHOD_STEEPEST_DESCENT,
                   local_particles := [pushed_particle]\<rparr>"


text \<open>The bottom rank of a layered system that is not periodic, with four layers of
  height 1/2.\<close>

definition example_layers :: layered_state where
  "example_layers = \<lparr>layered_flags = 1, n_layers = 4, layer_h = 1 / 2, layer_h_i = 2, my_left = (0, 0, 0)\<rparr>"

text \<open>A dipolar P3M parameter block before any parameter is set, in a box of length 10.\<close>

definition example_p3m_parameters :: P3MParameters where
  "example_p3m_parameters =
     \<lparr>p3m_alpha_L = 0, p3m_r_cut_iL = 0, p3m_mesh = (0, 0, 0), p3m_mesh_off = (1 / 2, 1 / 2, 1 / 2),
      p3m_cao = 0, p3m_inter = 32768, p3m_accuracy = 0, p3m_epsilon = 0, p3m_cao_cut = (0, 0, 0),
      p3m_a = (0, 0, 0), p3m_ai = (0, 0, 0), p3m_alpha = 0, p3m_r_cut = 0, p3m_inter2 = 0,
      p3m_cao3 = 0, p3m_additional_mesh = (0, 0, 0)\<rparr>"

definition example_dipolar_state :: "DipolarInteraction \<Rightarrow> dipolar_state" where
  "example_dipolar_state m =
     \<lparr>dipole_method = m, dp3m_params = example_p3m_parameters, dp_box_l = (10, 10, 10)\<rparr>"


text \<open>MMM2D variables for a unit box with the given \<open>max_near\<close>, \<open>min_far\<close> and \<open>ux\<close>, and
  outside routines that return 0.\<close>

definition example_mmm2d_state :: "real \<Rightarrow> real \<Rightarrow> real \<Rightarrow> mmm2d_state" where
  "example_mmm2d_state near far u =
     \<lparr>mmm2d_ux = u, mmm2d_uy = 1, mmm2d_max_near = near, mmm2d_min_far = far, mmm2d_part_error = 0,
      mmm2d_besselCutoff = [], mmm2d_complexCutoff = replicate 17 0, mmm2d_box_l = (1, 1, 1)\<rparr>"

definition example_mmm2d_externals :: mmm2d_externals where
  "example_mmm2d_externals = \<lparr>K1 = (\<lambda>x. 0), mod_psi_even = (\<lambda>n x. 0), fresh_entry = 0,
      out_of_range_int = (\<lambda>x. - (2 ^ 31))\<rparr>"









section \<open>Properties of the quartic bond\<close>

lemma vec_norm_nonneg: "0 \<le> vec_norm v"
  by (cases v) (simp add: vec_norm_def)

lemma vec_norm_unit_x: "vec_norm (1, 0, 0) = 1"
  by (simp add: vec_norm_def)

text \<open>
  C4, as stated, fails at the cutoff itself: with \<open>r_cut = 1\<close> and a pair at distance
  exactly 1 the bond is not reported as broken; the force and the energy are computed.
\<close>

theorem quartic_at_cutoff_not_broken:
  "fst (calc_quartic_pair_force
          \<lparr>quartic_k0 = 1, quartic_k1 = 1, quartic_r = 0, quartic_r_cut = 1\<rparr> (1, 0, 0) (0, 0, 0)) = 0
   \<and> quartic_pair_energy
          \<lparr>quartic_k0 = 1, quartic_k1 = 1, quartic_r = 0, quartic_r_cut = 1\<rparr> (1, 0, 0) 0
       = (0, 3 / 4)"
  by (simp add: calc_quartic_pair_force_def quartic_pair_energy_def vec_norm_unit_x sqr_def Let_def)

text \<open>
  C4, amended: with \<open>r_cut > 0\<close> the bond is reported broken (return code 1, output left
  as it was) exactly for distances strictly beyond \<open>r_cut\<close>.  For every other distance,
  and for every distance when \<open>r_cut \<le> 0\<close>, the return code is 0, the energy is
  \<open>k0 (r - r0)\<^sup>2 / 2 + k1 (r - r0)\<^sup>4 / 4\<close> and, for a nonzero distance \<open>r\<close>, the force is
  \<open>- (k0 (r - r0) + k1 (r - r0)\<^sup>3) / r\<close> times \<open>dx\<close>.
\<close>

theorem quartic_broken_beyond_cutoff:
  "(0 < quartic_r_cut P \<and> quartic_r_cut P < vec_norm dx \<longrightarrow>
      calc_quartic_pair_force P dx force = (1, force) \<and>
      quartic_pair_energy P dx energy = (1, energy))
   \<and> (\<not> (0 < quartic_r_cut P \<and> quartic_r_cut P < vec_norm dx) \<longrightarrow>
      quartic_pair_energy P dx energy =
        (0, 1 / 2 * quartic_k0 P * (vec_norm dx - quartic_r P) ^ 2
            + 1 / 4 * quartic_k1 P * (vec_norm dx - quartic_r P) ^ 4) \<and>
      (0 < vec_norm dx \<longrightarrow>
        calc_quartic_pair_force P dx force =
          (0, vec_scale (- (quartic_k0 P * (vec_norm dx - quartic_r P)
                            + quartic_k1 P * (vec_norm dx - quartic_r P) ^ 3) / vec_norm dx) dx)))"
proof -
  obtain a b c where dx: "dx = (a, b, c)" by (cases dx) auto
  have pow4: "sqr (sqr t) = t ^ 4" for t :: real
    by (simp add: sqr_def power4_eq_xxxx)
  have pow2: "sqr t = t ^ 2" for t :: real
    by (simp add: sqr_def power2_eq_square)
  have comp: "- ((k * t + l * t * t * t) / D) * w = - (k * t + l * t ^ 3) / D * w"
    for k l t D w :: real
  proof -
    have "k * t + l * t * t * t = k * t + l * t ^ 3"
      by (simp add: power3_eq_cube mult.assoc)
    then show ?thesis by (simp only: minus_divide_left)
  qed
  have energy_part: "\<not> (0 < quartic_r_cut P \<and> quartic_r_cut P < vec_norm dx) \<Longrightarrow>
      quartic_pair_energy P dx energy =
        (0, 1 / 2 * quartic_k0 P * (vec_norm dx - quartic_r P) ^ 2
            + 1 / 4 * quartic_k1 P * (vec_norm dx - quartic_r P) ^ 4)"
    unfolding quartic_pair_energy_def Let_def by (simp add: pow4 pow2)
  have force_part: "\<not> (0 < quartic_r_cut P \<and> quartic_r_cut P < vec_norm dx) \<Longrightarrow>
      calc_quartic_pair_force P dx force =
          (0, vec_scale (- (quartic_k0 P * (vec_norm dx - quartic_r P)
                            + quartic_k1 P * (vec_norm dx - quartic_r P) ^ 3) / vec_norm dx) dx)"
    unfolding calc_quartic_pair_force_def Let_def comp by (simp add: dx)
  have broken_part: "0 < quartic_r_cut P \<and> quartic_r_cut P < vec_norm dx \<Longrightarrow>
      calc_quartic_pair_force P dx force = (1, force) \<and>
      quartic_pair_energy P dx energy = (1, energy)"
    unfolding calc_quartic_pair_force_def quartic_pair_energy_def Let_def by simp
  from energy_part force_part broken_part show ?thesis by blast
qed

theorem quartic_broken_beyond_cutoff_witness:
  "calc_quartic_pair_force
      \<lparr>quartic_k0 = 1, quartic_k1 = 1, quartic_r = 0, quartic_r_cut = 1 / 2\<rparr> (1, 0, 0) (7, 8, 9)
     = (1, (7, 8, 9))
   \<and> quartic_pair_energy
      \<lparr>quartic_k0 = 1, quartic_k1 = 1, quartic_r = 0, quartic_r_cut = 2\<rparr> (1, 0, 0) 5 = (0, 3 / 4)
   \<and> calc_quartic_pair_force
      \<lparr>quartic_k0 = 1, quartic_k1 = 1, quartic_r = 0, quartic_r_cut = 2\<rparr> (1, 0, 0) (7, 8, 9)
     = (0, (- 2, 0, 0))"
  using quartic_broken_beyond_cutoff
          [of "\<lparr>quartic_k0 = 1, quartic_k1 = 1, quartic_r = 0, quartic_r_cut = 1 / 2\<rparr>"
              "(1, 0, 0)" "(7, 8, 9)" 5]
        quartic_broken_beyond_cutoff
          [of "\<lparr>quartic_k0 = 1, quartic_k1 = 1, quartic_r = 0, quartic_r_cut = 2\<rparr>"
              "(1, 0, 0)" "(7, 8, 9)" 5]
  by (simp add: vec_norm_unit_x)

section \<open>Properties of the steepest descent step\<close>

lemma clamp_abs_le: "\<bar>clamp v (- m) m\<bar> \<le> \<bar>m\<bar>"
  by (auto simp: clamp_def abs_if)

lemma vec_at_vec_set_lt3:
  "i < 3 \<Longrightarrow> j < 3 \<Longrightarrow> vec_at (vec_set v i w) j = (if i = j then w else vec_at v j)"
  by (cases v) auto

lemma sd_axis_fst:
  "fst (sd_axis E P i x) =
     (if coord_free E (fst x) i \<and> \<not> p_is_virtual (fst x) then
        (fst x)\<lparr>r_p := vec_set (r_p (fst x)) i (sd_moved E P (fst x) i)\<rparr>
      else fst x)"
  by (cases x) (simp add: Let_def sd_moved_def)

lemma sd_axis_fields:
  "f_f (fst (sd_axis E P i x)) = f_f (fst x)"
  "p_is_virtual (fst (sd_axis E P i x)) = p_is_virtual (fst x)"
  "coord_free E (fst (sd_axis E P i x)) j = coord_free E (fst x) j"
  by (simp_all add: sd_axis_fst coord_free_def)

lemma sd_axis_pos:
  "i < 3 \<Longrightarrow> j < 3 \<Longrightarrow>
     vec_at (r_p (fst (sd_axis E P i x))) j =
       (if i = j then sd_moved E P (fst x) j else vec_at (r_p (fst x)) j)"
  by (simp add: sd_axis_fst vec_at_vec_set_lt3 sd_moved_def)

lemma sd_moved_cong:
  "f_f q = f_f p \<Longrightarrow> p_is_virtual q = p_is_virtual p \<Longrightarrow> coord_free E q j = coord_free E p j \<Longrightarrow>
   vec_at (r_p q) j = vec_at (r_p p) j \<Longrightarrow> sd_moved E P q j = sd_moved E P p j"
  by (simp add: sd_moved_def)

lemma three_cases: "j < 3 \<Longrightarrow> j = 0 \<or> j = 1 \<or> j = (2::nat)"
  by arith

lemma sd_fold_pos:
  assumes "j < 3"
  shows "vec_at (r_p (fst (fold (sd_axis E P) [0, 1, 2] (p, 0)))) j = sd_moved E P p j"
proof -
  define x1 where "x1 = sd_axis E P 0 (p, 0)"
  define x2 where "x2 = sd_axis E P (Suc 0) x1"
  have f: "fold (sd_axis E P) [0, 1, 2] (p, 0) = sd_axis E P 2 x2"
    by (simp add: x1_def x2_def del: sd_axis.simps)
  have fld1: "f_f (fst x1) = f_f p" "p_is_virtual (fst x1) = p_is_virtual p"
    "coord_free E (fst x1) k = coord_free E p k" for k
    by (simp_all add: x1_def sd_axis_fields del: sd_axis.simps)
  have fld2: "f_f (fst x2) = f_f p" "p_is_virtual (fst x2) = p_is_virtual p"
    "coord_free E (fst x2) k = coord_free E p k" for k
    by (simp_all add: x2_def sd_axis_fields fld1 del: sd_axis.simps)
  have a0: "vec_at (r_p (fst x1)) 0 = sd_moved E P p 0"
    and a1: "vec_at (r_p (fst x1)) (Suc 0) = vec_at (r_p p) (Suc 0)"
    and a2: "vec_at (r_p (fst x1)) 2 = vec_at (r_p p) 2"
    by (simp_all add: x1_def sd_axis_pos del: sd_axis.simps)
  have m1: "sd_moved E P (fst x1) (Suc 0) = sd_moved E P p (Suc 0)"
    by (rule sd_moved_cong) (simp_all add: fld1 a1)
  have b0: "vec_at (r_p (fst x2)) 0 = sd_moved E P p 0"
    and b1: "vec_at (r_p (fst x2)) (Suc 0) = sd_moved E P p (Suc 0)"
    and b2: "vec_at (r_p (fst x2)) 2 = vec_at (r_p p) 2"
    by (simp_all add: x2_def sd_axis_pos a0 a2 m1 del: sd_axis.simps)
  have m2: "sd_moved E P (fst x2) 2 = sd_moved E P p 2"
    by (rule sd_moved_cong) (simp_all add: fld2 b2)
  have c0: "vec_at (r_p (fst (sd_axis E P 2 x2))) 0 = sd_moved E P p 0"
    and c1: "vec_at (r_p (fst (sd_axis E P 2 x2))) (Suc 0) = sd_moved E P p (Suc 0)"
    and c2: "vec_at (r_p (fst (sd_axis E P 2 x2))) 2 = sd_moved E P p 2"
    by (simp_all add: sd_axis_pos b0 b1 m2 del: sd_axis.simps)
  from three_cases[OF assms] show ?thesis
    unfolding f using c0 c1 c2 by auto
qed

lemma sd_rotate_pos:
  assumes "\<forall>q axis angle. r_p (local_rotate_particle E q axis angle) = r_p q"
  shows "r_p (fst (sd_rotate E P p)) = r_p p"
  using assms by (simp add: sd_rotate_def Let_def del: split_paired_All)

lemma sd_particles_Cons:
  "fst (sd_particles E P (p # ps) fm) =
     fst (sd_rotate E P (fst (fold (sd_axis E P) [0, 1, 2] (p, 0))))
     # fst (sd_particles E P ps
             (max (max fm (snd (sd_rotate E P (fst (fold (sd_axis E P) [0, 1, 2] (p, 0))))))
                  (snd (fold (sd_axis E P) [0, 1, 2] (p, 0)))))"
  by (simp add: Let_def split_beta del: fold.simps sd_axis.simps)

lemma sd_particles_length: "length (fst (sd_particles E P ps fm)) = length ps"
  by (induction ps arbitrary: fm) (simp_all add: sd_particles_Cons del: sd_particles.simps(2) fold.simps)

lemma sd_particles_pos:
  assumes rot: "\<forall>q axis angle. r_p (local_rotate_particle E q axis angle) = r_p q"
  shows "i < length ps \<Longrightarrow> j < 3 \<Longrightarrow>
         vec_at (r_p (fst (sd_particles E P ps fm) ! i)) j = sd_moved E P (ps ! i) j"
proof (induction ps arbitrary: fm i)
  case Nil
  then show ?case by simp
next
  case (Cons p ps)
  show ?case
  proof (cases i)
    case 0
    then show ?thesis
      using sd_fold_pos[OF Cons.prems(2), of E P p]
      by (simp add: sd_particles_Cons sd_rotate_pos[OF rot]
               del: sd_particles.simps(2) fold.simps)
  next
    case (Suc k)
    then show ?thesis
      using Cons.prems Cons.IH[of k]
      by (simp add: sd_particles_Cons del: sd_particles.simps(2) fold.simps)
  qed
qed

text \<open>
  C5: in one \<open>steepest_descent_step\<close>, for every local particle and every Cartesian axis
  that is not fixed and does not belong to a virtual site, the new coordinate is the old
  one plus \<open>clamp (gamma * F_axis, - max_displacement, + max_displacement)\<close>, an increment
  whose magnitude does not exceed that of \<open>max_displacement\<close>; on a fixed axis and for a
  virtual site the coordinate is left as it was.  The rotation routine of rotation.cpp is
  taken not to write positions.
\<close>

theorem steepest_descent_step_displacement:
  assumes rot: "\<forall>q axis angle. r_p (local_rotate_particle E q axis angle) = r_p q"
    and i: "i < length (local_particles s)" and j: "j < 3"
  shows "length (local_particles (fst (steepest_descent_step E s))) = length (local_particles s)
    \<and> (coord_free E (local_particles s ! i) j \<and> \<not> p_is_virtual (local_particles s ! i) \<longrightarrow>
         vec_at (r_p (local_particles (fst (steepest_descent_step E s)) ! i)) j
           = vec_at (r_p (local_particles s ! i)) j
             + clamp (sd_gamma (sd_params s) * vec_at (f_f (local_particles s ! i)) j)
                 (- sd_max_displacement (sd_params s)) (sd_max_displacement (sd_params s))
         \<and> \<bar>vec_at (r_p (local_particles (fst (steepest_descent_step E s)) ! i)) j
              - vec_at (r_p (local_particles s ! i)) j\<bar> \<le> \<bar>sd_max_displacement (sd_params s)\<bar>)
    \<and> (\<not> coord_free E (local_particles s ! i) j \<or> p_is_virtual (local_particles s ! i) \<longrightarrow>
         vec_at (r_p (local_particles (fst (steepest_descent_step E s)) ! i)) j
           = vec_at (r_p (local_particles s ! i)) j)"
proof -
  have ps: "local_particles (fst (steepest_descent_step E s))
              = fst (sd_particles E (sd_params s) (local_particles s) (- DBL_MAX))"
    by (simp add: steepest_descent_step_def Let_def split_beta)
  have pos: "vec_at (r_p (local_particles (fst (steepest_descent_step E s)) ! i)) j
               = sd_moved E (sd_params s) (local_particles s ! i) j"
    unfolding ps using sd_particles_pos[OF rot i j] .
  show ?thesis
    unfolding pos
    using clamp_abs_le[of "sd_gamma (sd_params s) * vec_at (f_f (local_particles s ! i)) j"
                          "sd_max_displacement (sd_params s)"]
    by (auto simp: ps sd_particles_length sd_moved_def)
qed


theorem steepest_descent_step_displacement_witness:
  "vec_at (r_p (local_particles (fst (steepest_descent_step example_environment sd_example_state)) ! 0)) 0 = 0
   \<and> vec_at (r_p (local_particles (fst (steepest_descent_step example_environment sd_example_state)) ! 0)) 1 = 1 / 2
   \<and> vec_at (r_p (local_particles (fst (steepest_descent_step example_environment sd_example_state)) ! 0)) 2 = - 1"
proof -
  have rot: "\<forall>q axis angle. r_p (local_rotate_particle example_environment q axis angle) = r_p q"
    by (simp add: example_environment_def)
  have i: "0 < length (local_particles sd_example_state)"
    by (simp add: sd_example_state_def)
  have fixed: "\<not> coord_free example_environment (local_particles sd_example_state ! 0) 0"
    "coord_free example_environment (local_particles sd_example_state ! 0) 1"
    "coord_free example_environment (local_particles sd_example_state ! 0) 2"
    by (simp_all add: sd_example_state_def coord_free_def example_environment_def pushed_particle_def)
  show ?thesis
    using steepest_descent_step_displacement[OF rot i, of 0]
          steepest_descent_step_displacement[OF rot i, of 1]
          steepest_descent_step_displacement[OF rot i, of 2] fixed
    by (simp add: sd_example_state_def example_state_def pushed_particle_def clamp_def)
qed


section \<open>Properties of the Verlet criterion\<close>

lemma norm2_nonneg: "0 \<le> norm2 v"
  by (cases v) simp

lemma half_skin_criterion:
  "sqr (0.5 * k) < norm2 d \<longleftrightarrow> \<bar>k\<bar> / 2 < vec_norm d"
proof -
  have "sqr (0.5 * k) = (\<bar>k\<bar> / 2)\<^sup>2"
    by (simp add: sqr_def power2_eq_square)
  moreover have "(\<bar>k\<bar> / 2)\<^sup>2 < norm2 d \<longleftrightarrow> \<bar>k\<bar> / 2 < sqrt (norm2 d)"
    using real_less_rsqrt[of "\<bar>k\<bar> / 2" "norm2 d"] real_sqrt_less_iff[of "(\<bar>k\<bar> / 2)\<^sup>2" "norm2 d"]
    by auto
  ultimately show ?thesis by (simp add: vec_norm_def)
qed

lemma verlet_criterion_norm2:
  "verlet_criterion sk2 p \<longleftrightarrow> sk2 < norm2 (vec_sub (r_p p) (l_p_old p))"
  by (cases "r_p p"; cases "l_p_old p") (simp add: verlet_criterion_def sqr_def)

lemma vel_pos_axis_virtual: "p_is_virtual (vel_pos_axis E dt j p) = p_is_virtual p"
  by (simp add: vel_pos_axis_def Let_def)

lemma pos_axis_virtual: "p_is_virtual (pos_axis E dt j p) = p_is_virtual p"
  by (simp add: pos_axis_def)

lemma propagate_vel_pos_particles_resort:
  "snd (propagate_vel_pos_particles E dt sk2 ps r) \<longleftrightarrow>
     r \<or> (\<exists>p \<in> set (fst (propagate_vel_pos_particles E dt sk2 ps r)).
            \<not> p_is_virtual p \<and> sk2 < norm2 (vec_sub (r_p p) (l_p_old p)))"
proof (induction ps arbitrary: r)
  case Nil
  then show ?case by simp
next
  case (Cons p ps)
  show ?case
    by (simp add: Let_def split_beta Cons.IH vel_pos_axis_virtual verlet_criterion_norm2)
qed

lemma propagate_pos_particles_resort:
  "snd (propagate_pos_particles E dt sk2 ps r) \<longleftrightarrow>
     r \<or> (\<exists>p \<in> set (fst (propagate_pos_particles E dt sk2 ps r)).
            \<not> p_is_virtual p \<and> sk2 < norm2 (vec_sub (r_p p) (l_p_old p)))"
proof (induction ps arbitrary: r)
  case Nil
  then show ?case by simp
next
  case (Cons p ps)
  show ?case
    by (simp add: Let_def split_beta Cons.IH pos_axis_virtual)
qed

lemma sqrt_9_16: "sqrt (9 / 16) = 3 / 4"
  by (rule real_sqrt_unique) (simp_all add: power2_eq_square)

text \<open>
  C1, as stated, fails: with skin 1 a particle that lies 3/4 away from \<open>p_old\<close> after its
  move, which is within the skin, sets the resort flag.
\<close>

theorem verlet_resort_within_skin:
  "skin2 example_state = sqr (0.5 * skin example_state)
   \<and> \<not> resort_local example_state
   \<and> local_particles (propagate_vel_pos example_environment example_state) = [resting_particle]
   \<and> vec_norm (vec_sub (r_p resting_particle) (l_p_old resting_particle)) = 3 / 4
   \<and> 3 / 4 \<le> skin example_state
   \<and> resort_local (propagate_vel_pos example_environment example_state)"
  by (simp add: example_state_def example_environment_def resting_particle_def
        propagate_vel_pos_def vel_pos_axis_def coord_free_def verlet_criterion_def sqr_def
        vec_norm_def sqrt_9_16 Let_def)

text \<open>
  C1, amended: with \<open>skin2 = sqr (0.5 * skin)\<close>, as \<open>integrate_vv\<close> sets it before the loop,
  \<open>propagate_vel_pos\<close> (NVT) sets the local resort flag exactly when some particle that is
  not a virtual site lies, after its move, more than half the skin away from \<open>p_old\<close>; a
  particle within half the skin does not set it, and a flag already raised stays raised.
  The NVT branch of \<open>propagate_pos\<close> does the same.
\<close>

theorem verlet_resort_beyond_half_skin:
  assumes "skin2 s = sqr (0.5 * skin s)"
  shows "(resort_local (propagate_vel_pos E s) \<longleftrightarrow>
            resort_local s \<or>
            (\<exists>p \<in> set (local_particles (propagate_vel_pos E s)).
               \<not> p_is_virtual p \<and> \<bar>skin s\<bar> / 2 < vec_norm (vec_sub (r_p p) (l_p_old p))))
       \<and> (integ_switch s \<noteq> INTEG_METHOD_NPT_ISO \<longrightarrow>
           (resort_local (propagate_pos E s) \<longleftrightarrow>
              resort_local s \<or>
              (\<exists>p \<in> set (local_particles (propagate_pos E s)).
                 \<not> p_is_virtual p \<and> \<bar>skin s\<bar> / 2 < vec_norm (vec_sub (r_p p) (l_p_old p)))))"
proof -
  have a: "resort_local (propagate_vel_pos E s) =
             snd (propagate_vel_pos_particles E (time_step s) (skin2 s) (local_particles s) (resort_local s))"
    and b: "local_particles (propagate_vel_pos E s) =
             fst (propagate_vel_pos_particles E (time_step s) (skin2 s) (local_particles s) (resort_local s))"
    by (simp_all add: propagate_vel_pos_def split_beta)
  have c: "integ_switch s \<noteq> INTEG_METHOD_NPT_ISO \<Longrightarrow> resort_local (propagate_pos E s) =
             snd (propagate_pos_particles E (time_step s) (skin2 s) (local_particles s) (resort_local s))"
    and d: "integ_switch s \<noteq> INTEG_METHOD_NPT_ISO \<Longrightarrow> local_particles (propagate_pos E s) =
             fst (propagate_pos_particles E (time_step s) (skin2 s) (local_particles s) (resort_local s))"
    by (simp_all add: propagate_pos_def split_beta)
  have crit: "skin2 s < norm2 v \<longleftrightarrow> \<bar>skin s\<bar> / 2 < vec_norm v" for v
    unfolding assms by (rule half_skin_criterion)
  have "resort_local (propagate_vel_pos E s) \<longleftrightarrow>
            resort_local s \<or>
            (\<exists>p \<in> set (local_particles (propagate_vel_pos E s)).
               \<not> p_is_virtual p \<and> \<bar>skin s\<bar> / 2 < vec_norm (vec_sub (r_p p) (l_p_old p)))"
    unfolding a b crit[symmetric] by (rule propagate_vel_pos_particles_resort)
  moreover have "resort_local (propagate_pos E s) \<longleftrightarrow>
              resort_local s \<or>
              (\<exists>p \<in> set (local_particles (propagate_pos E s)).
                 \<not> p_is_virtual p \<and> \<bar>skin s\<bar> / 2 < vec_norm (vec_sub (r_p p) (l_p_old p)))"
    if "integ_switch s \<noteq> INTEG_METHOD_NPT_ISO"
    unfolding c[OF that] d[OF that] crit[symmetric] by (rule propagate_pos_particles_resort)
  ultimately show ?thesis by blast
qed


theorem verlet_resort_beyond_half_skin_witness:
  "skin2 example_state = sqr (0.5 * skin example_state)
   \<and> resort_local (propagate_vel_pos example_environment example_state)"
proof -
  have h: "skin2 example_state = sqr (0.5 * skin example_state)"
    by (simp add: example_state_def)
  have p: "local_particles (propagate_vel_pos example_environment example_state) = [resting_particle]"
    by (simp add: example_state_def example_environment_def resting_particle_def
        propagate_vel_pos_def vel_pos_axis_def coord_free_def verlet_criterion_def sqr_def Let_def)
  have d: "\<bar>skin example_state\<bar> / 2 < vec_norm (vec_sub (r_p resting_particle) (l_p_old resting_particle))"
    by (simp add: example_state_def resting_particle_def vec_norm_def sqrt_9_16)
  show ?thesis
    using verlet_resort_beyond_half_skin[OF h, of example_environment] h p d
    by (simp add: resting_particle_def)
qed


section \<open>Properties of the simulation clock\<close>

lemma clock_ext: "clock_frame E \<Longrightarrow> clock (ext E x s) = clock s"
  by (simp add: clock_frame_def clock_def)

lemma clock_finalize: "clock (finalize_p_inst_npt E s) = clock s"
  by (simp add: finalize_p_inst_npt_def clock_def Let_def)

lemma clock_npt_adjust: "clock (fst (npt_adjust_volume s)) = clock s"
  by (simp add: npt_adjust_volume_def clock_def Let_def split_beta)

lemma clock_npt:
  "clock_frame E \<Longrightarrow> clock (propagate_press_box_pos_and_rescale_npt E s) = clock s"
  unfolding propagate_press_box_pos_and_rescale_npt_def Let_def split_beta
  apply (simp add: clock_ext)
  apply (simp add: clock_def)
  using clock_npt_adjust[of "finalize_p_inst_npt E s"] clock_finalize[of E s]
  apply (simp add: clock_def)
  done

lemma clock_propagate_vel: "clock (propagate_vel E s) = clock s"
  by (simp add: propagate_vel_def clock_def split_beta)

lemma clock_propagate_pos: "clock_frame E \<Longrightarrow> clock (propagate_pos E s) = clock s"
  by (simp add: propagate_pos_def clock_npt split_beta) (simp add: clock_def)

lemma clock_propagate_vel_pos: "clock (propagate_vel_pos E s) = clock s"
  by (simp add: propagate_vel_pos_def clock_def split_beta)

lemma clock_sd: "clock (fst (steepest_descent_step E s)) = clock s"
  by (simp add: steepest_descent_step_def clock_def split_beta Let_def)

lemma clock_vel_finalize: "clock (propagate_vel_finalize_p_inst E s) = clock s"
  by (simp add: propagate_vel_finalize_p_inst_def Let_def split_beta clock_finalize) (simp add: clock_def)

lemma clock_philox: "clock_frame E \<Longrightarrow> clock (philox_counter_increment E s) = clock s"
  by (simp add: philox_counter_increment_def clock_ext)

lemma Let_invariant:
  assumes "I a" and "\<And>x. I x \<Longrightarrow> P (f x)"
  shows "P (Let a f)"
  using assms by simp

lemma clock_after_move:
  assumes "clock_frame E"
  shows "clock (fst (integrate_after_move E s)) = clock s"
proof -
  note e = clock_ext[OF assms] clock_philox[OF assms] clock_vel_finalize
  have upd: "clock (t\<lparr>nptiso := n\<rparr>) = clock t" "clock (t\<lparr>ctrl_C := c, set_py_interrupt := b\<rparr>) = clock t"
    for t :: "'a integ_state" and n c b
    by (simp_all add: clock_def)
  show ?thesis
    unfolding integrate_after_move_def
    apply (rule Let_invariant[where I = "\<lambda>t. clock t = clock s"], simp add: e)
    apply (rule Let_invariant[where I = "\<lambda>t. clock t = clock s"], simp add: e)
    apply (rule Let_invariant[where I = "\<lambda>t. clock t = clock s"], simp add: e)
    apply (rule Let_invariant[where I = "\<lambda>t. clock t = clock s"], simp add: e)
    apply (rule Let_invariant[where I = "\<lambda>t. clock t = clock s"], simp add: e)
    apply (rule Let_invariant[where I = "\<lambda>t. clock t = clock s"], simp add: e)
    apply (rule Let_invariant[where I = "\<lambda>t. clock t = clock s"], simp add: e)
    apply (rule Let_invariant[where I = "\<lambda>t. clock t = clock s"], simp add: e)
    apply (rule Let_invariant[where I = "\<lambda>t. clock t = clock s"], simp add: e)
    apply (rule Let_invariant[where I = "\<lambda>t. clock t = clock s"], simp add: e)
    apply (rule Let_invariant[where I = "\<lambda>t. clock t = clock s"], simp add: e)
    apply (rule Let_invariant[where I = "\<lambda>t. clock t = clock s"], simp add: e upd)
    apply (rule Let_invariant[where I = "\<lambda>t. clock t = clock s"], simp add: e)
    apply (simp add: upd)
    done
qed

lemma move_clock:
  assumes "clock_frame E"
  shows "time_step (fst (integrate_move E s)) = time_step s"
    and "integ_switch (fst (integrate_move E s)) = integ_switch s"
    and "sim_time (fst (integrate_move E s)) =
           (if integ_switch s = INTEG_METHOD_STEEPEST_DESCENT then sim_time s
            else sim_time s + time_step s)"
    and "integ_switch s \<noteq> INTEG_METHOD_STEEPEST_DESCENT \<Longrightarrow> \<not> snd (integrate_move E s)"
proof -
  have a: "clock (propagate_pos E (propagate_vel E s)) = clock s"
    by (simp add: clock_propagate_pos[OF assms] clock_propagate_vel)
  note b = clock_propagate_vel_pos[of E s] clock_sd[of E s]
  show "time_step (fst (integrate_move E s)) = time_step s"
    using a b by (auto simp: integrate_move_def Let_def clock_def)
  show "integ_switch (fst (integrate_move E s)) = integ_switch s"
    using a b by (auto simp: integrate_move_def Let_def clock_def)
  show "sim_time (fst (integrate_move E s)) =
           (if integ_switch s = INTEG_METHOD_STEEPEST_DESCENT then sim_time s
            else sim_time s + time_step s)"
    using a b by (auto simp: integrate_move_def Let_def clock_def)
  show "integ_switch s \<noteq> INTEG_METHOD_STEEPEST_DESCENT \<Longrightarrow> \<not> snd (integrate_move E s)"
    by (auto simp: integrate_move_def Let_def)
qed

lemma step_clock:
  assumes "clock_frame E"
  shows "time_step (fst (integration_step E s)) = time_step s"
    and "integ_switch (fst (integration_step E s)) = integ_switch s"
    and "sim_time (fst (integration_step E s)) =
           (if integ_switch s = INTEG_METHOD_STEEPEST_DESCENT then sim_time s
            else sim_time s + time_step s)"
proof -
  define s1 where "s1 = (if n_rigidbonds s \<noteq> 0 then ext E Save_old_pos s else s)"
  have c1: "clock s1 = clock s"
    by (simp add: s1_def clock_ext[OF assms])
  then have f1: "sim_time s1 = sim_time s" "time_step s1 = time_step s" "integ_switch s1 = integ_switch s"
    by (simp_all add: clock_def)
  define s2 where "s2 = fst (integrate_move E s1)"
  have st: "fst (integration_step E s) =
      (if snd (integrate_move E s1) then s2 else fst (integrate_after_move E s2))"
    by (simp add: integration_step_def Let_def split_beta s1_def s2_def)
  have c2: "clock (fst (integrate_after_move E s2)) = clock s2"
    by (rule clock_after_move[OF assms])
  then have f2: "sim_time (fst (integrate_after_move E s2)) = sim_time s2"
    "time_step (fst (integrate_after_move E s2)) = time_step s2"
    "integ_switch (fst (integrate_after_move E s2)) = integ_switch s2"
    by (simp_all add: clock_def)
  note m = move_clock(1-3)[OF assms, of s1, folded s2_def]
  show "time_step (fst (integration_step E s)) = time_step s"
    by (simp add: st f2 m f1)
  show "integ_switch (fst (integration_step E s)) = integ_switch s"
    by (simp add: st f2 m f1)
  show "sim_time (fst (integration_step E s)) =
           (if integ_switch s = INTEG_METHOD_STEEPEST_DESCENT then sim_time s
            else sim_time s + time_step s)"
    by (simp add: st f2 m f1)
qed

lemma loop_clock:
  assumes "clock_frame E"
  shows "time_step (fst (integration_loop E n s)) = time_step s
       \<and> integ_switch (fst (integration_loop E n s)) = integ_switch s
       \<and> sim_time (fst (integration_loop E n s)) =
           (if integ_switch s = INTEG_METHOD_STEEPEST_DESCENT then sim_time s
            else sim_time s + real (snd (integration_loop E n s)) * time_step s)
       \<and> snd (integration_loop E n s) \<le> n"
proof (induction n arbitrary: s)
  case 0
  then show ?case by simp
next
  case (Suc n)
  note sc = step_clock[OF assms, of s]
  show ?case
    using Suc.IH[of "fst (integration_step E s)"] sc
    by (auto simp: Let_def split_beta algebra_simps)
qed

text \<open>
  C10: one pass through the body of the integration loop advances \<open>sim_time\<close> by
  \<open>time_step\<close> in the NVT and in the NPT mode and leaves it unchanged in the steepest
  descent mode; after the loop \<open>sim_time\<close> has advanced by \<open>time_step\<close> for every pass
  begun in NVT or NPT mode and not at all in the steepest descent mode.  The routines of
  other files are taken not to write the clock, the time step or the integrator switch.
\<close>

theorem sim_time_advance:
  assumes "clock_frame E"
  shows "(integ_switch s = INTEG_METHOD_STEEPEST_DESCENT \<longrightarrow>
            sim_time (fst (integration_step E s)) = sim_time s
          \<and> sim_time (fst (integration_loop E n s)) = sim_time s)
       \<and> (integ_switch s = INTEG_METHOD_NVT \<or> integ_switch s = INTEG_METHOD_NPT_ISO \<longrightarrow>
            sim_time (fst (integration_step E s)) = sim_time s + time_step s
          \<and> sim_time (fst (integration_loop E n s))
              = sim_time s + real (snd (integration_loop E n s)) * time_step s
          \<and> snd (integration_loop E n s) \<le> n)"
  using step_clock(3)[OF assms, of s] loop_clock[OF assms, of n s]
  by auto


theorem sim_time_advance_witness:
  "sim_time (fst (integration_step example_environment example_state)) = 1
   \<and> sim_time (fst (integration_step example_environment npt_example_state)) = 1
   \<and> sim_time (fst (integration_loop example_environment 3 sd_example_state)) = 0"
proof -
  have frame: "clock_frame example_environment"
    by (simp add: clock_frame_def example_environment_def)
  have sw: "integ_switch example_state = INTEG_METHOD_NVT"
    "integ_switch npt_example_state = INTEG_METHOD_NPT_ISO"
    "integ_switch sd_example_state = INTEG_METHOD_STEEPEST_DESCENT"
    by (simp_all add: npt_example_state_def sd_example_state_def example_state_def)
  have t: "sim_time example_state = 0" "time_step example_state = 1"
    "sim_time npt_example_state = 0" "time_step npt_example_state = 1"
    "sim_time sd_example_state = 0"
    by (simp_all add: npt_example_state_def sd_example_state_def example_state_def)
  show ?thesis
    using sim_time_advance[OF frame, of example_state 0]
          sim_time_advance[OF frame, of npt_example_state 0]
          sim_time_advance[OF frame, of sd_example_state 3]
    by (simp add: sw t)
qed


section \<open>Properties of the NPT volume update\<close>

lemma finalize_fields:
  "this_node (finalize_p_inst_npt E s) = this_node s"
  "box_l (finalize_p_inst_npt E s) = box_l s"
  "time_step (finalize_p_inst_npt E s) = time_step s"
  "runtime_errors (finalize_p_inst_npt E s) = runtime_errors s"
  by (simp_all add: finalize_p_inst_npt_def Let_def)

lemma npt_adjust_volume_negative:
  assumes "this_node s = 0"
    and "npt_volume (nptiso s) + npt_inv_piston (nptiso s) * npt_p_diff (nptiso s) * 0.5 * time_step s
           + npt_inv_piston (nptiso s) * npt_p_diff (nptiso s) * 0.5 * time_step s < 0"
  shows "runtime_errors (fst (npt_adjust_volume s)) =
           runtime_errors s @ [Volume_became_negative (npt_piston (nptiso s)) (time_step s) (npt_p_diff (nptiso s))]"
    and "npt_volume (nptiso (fst (npt_adjust_volume s))) =
           vec_at (box_l s) 0 * vec_at (box_l s) 1 * vec_at (box_l s) 2"
    and "vec_at (fst (snd (npt_adjust_volume s))) 2 = 1"
  using assms by (simp_all add: npt_adjust_volume_def Let_def split_beta)

lemma npt_adjust_volume_nonnegative:
  assumes "this_node s = 0"
    and "\<not> npt_volume (nptiso s) + npt_inv_piston (nptiso s) * npt_p_diff (nptiso s) * 0.5 * time_step s
           + npt_inv_piston (nptiso s) * npt_p_diff (nptiso s) * 0.5 * time_step s < 0"
  shows "runtime_errors (fst (npt_adjust_volume s)) = runtime_errors s"
    and "0 \<le> npt_volume (nptiso (fst (npt_adjust_volume s)))"
  using assms by (simp_all add: npt_adjust_volume_def Let_def split_beta)

lemma npt_after_block:
  assumes "npt_frame E" "integ_switch s = INTEG_METHOD_NPT_ISO"
  shows "nptiso (propagate_press_box_pos_and_rescale_npt E s)
           = nptiso (fst (npt_adjust_volume (finalize_p_inst_npt E s)))"
    and "runtime_errors (propagate_press_box_pos_and_rescale_npt E s)
           = runtime_errors (fst (npt_adjust_volume (finalize_p_inst_npt E s)))"
  using assms
  by (simp_all add: propagate_press_box_pos_and_rescale_npt_def Let_def split_beta npt_frame_def)

text \<open>
  C3: on rank 0 in NPT mode, whenever the volume after the two half-steps of
  \<open>inv_piston * p_diff * 0.5 * time_step\<close> (with \<open>p_diff\<close> as \<open>finalize_p_inst_npt\<close> leaves it) is
  negative, the diagnostic is queued, the volume is reset to the product of the three
  current box lengths and \<open>scal[2]\<close> is set to 1; the routine runs to its end, and with
  non-negative box lengths the volume it leaves is not negative.
\<close>

theorem npt_negative_volume_reset:
  fixes E :: "'w environment" and s :: "'w integ_state"
  defines "s1 \<equiv> finalize_p_inst_npt E s"
  assumes root: "this_node s = 0" and npt: "integ_switch s = INTEG_METHOD_NPT_ISO"
    and neg: "npt_volume (nptiso s1) + npt_inv_piston (nptiso s1) * npt_p_diff (nptiso s1) * 0.5 * time_step s1
           + npt_inv_piston (nptiso s1) * npt_p_diff (nptiso s1) * 0.5 * time_step s1 < 0"
  shows "runtime_errors (fst (npt_adjust_volume s1)) =
           runtime_errors s @ [Volume_became_negative (npt_piston (nptiso s1)) (time_step s) (npt_p_diff (nptiso s1))]
       \<and> npt_volume (nptiso (fst (npt_adjust_volume s1))) =
           vec_at (box_l s) 0 * vec_at (box_l s) 1 * vec_at (box_l s) 2
       \<and> vec_at (fst (snd (npt_adjust_volume s1))) 2 = 1
       \<and> (npt_frame E \<longrightarrow>
            runtime_errors (propagate_press_box_pos_and_rescale_npt E s) =
              runtime_errors s @ [Volume_became_negative (npt_piston (nptiso s1)) (time_step s) (npt_p_diff (nptiso s1))]
          \<and> npt_volume (nptiso (propagate_press_box_pos_and_rescale_npt E s)) =
              vec_at (box_l s) 0 * vec_at (box_l s) 1 * vec_at (box_l s) 2
          \<and> (0 \<le> vec_at (box_l s) 0 \<and> 0 \<le> vec_at (box_l s) 1 \<and> 0 \<le> vec_at (box_l s) 2 \<longrightarrow>
               0 \<le> npt_volume (nptiso (propagate_press_box_pos_and_rescale_npt E s))))"
proof -
  have r1: "this_node s1 = 0" by (simp add: s1_def finalize_fields root)
  note blk = npt_adjust_volume_negative[OF r1 neg]
  have f: "box_l s1 = box_l s" "time_step s1 = time_step s" "runtime_errors s1 = runtime_errors s"
    by (simp_all add: s1_def finalize_fields)
  show ?thesis
    using blk npt_after_block[OF _ npt, of E, folded s1_def]
    by (simp add: f)
qed

lemma npt_example_finalize:
  "nptiso (finalize_p_inst_npt example_environment npt_example_state) = example_nptiso"
  by (simp add: finalize_p_inst_npt_def npt_example_state_def example_state_def
       example_environment_def example_nptiso_def finalize_axis_def npt_axis_fluctuates_def
       Let_def sqr_def)

theorem npt_negative_volume_reset_witness:
  "runtime_errors (propagate_press_box_pos_and_rescale_npt example_environment npt_example_state)
     = [Volume_became_negative 1 1 (- 20)]
   \<and> npt_volume (nptiso (propagate_press_box_pos_and_rescale_npt example_environment npt_example_state)) = 8
   \<and> vec_at (fst (snd (npt_adjust_volume (finalize_p_inst_npt example_environment npt_example_state)))) 2 = 1"
proof -
  have root: "this_node npt_example_state = 0"
    and npt: "integ_switch npt_example_state = INTEG_METHOD_NPT_ISO"
    by (simp_all add: npt_example_state_def example_state_def)
  have dt: "time_step (finalize_p_inst_npt example_environment npt_example_state) = 1"
    by (simp add: finalize_fields npt_example_state_def example_state_def)
  have frame: "npt_frame example_environment"
    by (simp add: npt_frame_def example_environment_def)
  have neg: "npt_volume (nptiso (finalize_p_inst_npt example_environment npt_example_state))
      + npt_inv_piston (nptiso (finalize_p_inst_npt example_environment npt_example_state))
        * npt_p_diff (nptiso (finalize_p_inst_npt example_environment npt_example_state)) * 0.5
        * time_step (finalize_p_inst_npt example_environment npt_example_state)
      + npt_inv_piston (nptiso (finalize_p_inst_npt example_environment npt_example_state))
        * npt_p_diff (nptiso (finalize_p_inst_npt example_environment npt_example_state)) * 0.5
        * time_step (finalize_p_inst_npt example_environment npt_example_state) < 0"
    by (simp add: npt_example_finalize dt) (simp add: example_nptiso_def)
  show ?thesis
    using npt_negative_volume_reset[OF root npt neg] frame
    by (simp add: npt_example_finalize) (simp add: npt_example_state_def example_state_def example_nptiso_def)
qed

section \<open>Properties of the layered position mapping\<close>

text \<open>
  C6: \<open>layered_position_to_cell\<close> maps a position with z-coordinate \<open>z\<close> to the cell with
  index \<open>floor ((z - local z-origin) * (1 / layer_h)) + 1\<close>, the reciprocal being the variable
  \<open>layer_h_i\<close>; an index below 1 is clamped to 1 exactly when the rank has no neighbor below
  and an index above \<open>n_layers\<close> is clamped to \<open>n_layers\<close> exactly when the rank has no
  neighbor above, and otherwise no cell is returned.  The floor and the floor plus 1 are
  values of \<open>int\<close>, so that the conversion and the increment are defined, and the layer
  count is not negative, as \<open>layered_topology_init\<close> leaves it.
\<close>

theorem layered_position_to_cell_index:
  assumes "fits_int \<lfloor>(vec_at pos 2 - vec_at (my_left L) 2) * (layer_h_i L)\<rfloor>"
    and "fits_int (\<lfloor>(vec_at pos 2 - vec_at (my_left L) 2) * (layer_h_i L)\<rfloor> + 1)"
    and "0 \<le> n_layers L"
  shows "(layered_cpos L pos < 1 \<longrightarrow>
            layered_position_to_cell L pos = (if LAYERED_BTM_NEIGHBOR L then None else Some 1))
       \<and> (n_layers L < layered_cpos L pos \<longrightarrow>
            layered_position_to_cell L pos = (if LAYERED_TOP_NEIGHBOR L then None else Some (n_layers L)))
       \<and> (1 \<le> layered_cpos L pos \<and> layered_cpos L pos \<le> n_layers L \<longrightarrow>
            layered_position_to_cell L pos = Some (layered_cpos L pos))
       \<and> layered_cpos L pos = \<lfloor>(vec_at pos 2 - vec_at (my_left L) 2) * (layer_h_i L)\<rfloor> + 1"
proof -
  define c where "c = layered_cpos L pos"
  have r: "layered_position_to_cell L pos =
             (if c < 1 then (if \<not> LAYERED_BTM_NEIGHBOR L then Some 1 else None)
              else if c > n_layers L then (if \<not> LAYERED_TOP_NEIGHBOR L then Some (n_layers L) else None)
              else Some c)"
    by (simp add: layered_position_to_cell_def Let_def c_def)
  have "(c < 1 \<longrightarrow> layered_position_to_cell L pos = (if LAYERED_BTM_NEIGHBOR L then None else Some 1))
       \<and> (n_layers L < c \<longrightarrow>
            layered_position_to_cell L pos = (if LAYERED_TOP_NEIGHBOR L then None else Some (n_layers L)))
       \<and> (1 \<le> c \<and> c \<le> n_layers L \<longrightarrow> layered_position_to_cell L pos = Some c)"
    using assms(3) unfolding r by auto
  then show ?thesis
    unfolding c_def by (simp add: layered_cpos_def)
qed

theorem layered_position_to_cell_index_witness:
  "layered_position_to_cell example_layers (0, 0, - 1 / 4) = Some 1
   \<and> layered_position_to_cell example_layers (0, 0, 5 / 4) = Some 3
   \<and> layered_position_to_cell example_layers (0, 0, 9 / 4) = None"
proof -
  have n: "0 \<le> n_layers example_layers" by (simp add: example_layers_def)
  have fl: "\<lfloor>(vec_at (0, 0, - 1 / 4) 2 - vec_at (my_left example_layers) 2) * layer_h_i example_layers\<rfloor> = - 1"
    "\<lfloor>(vec_at (0, 0, 5 / 4) 2 - vec_at (my_left example_layers) 2) * layer_h_i example_layers\<rfloor> = 2"
    "\<lfloor>(vec_at (0, 0, 9 / 4) 2 - vec_at (my_left example_layers) 2) * layer_h_i example_layers\<rfloor> = 4"
    by (simp_all add: example_layers_def)
  have a: "fits_int \<lfloor>(vec_at (0, 0, - 1 / 4) 2 - vec_at (my_left example_layers) 2) * layer_h_i example_layers\<rfloor>"
    "fits_int (\<lfloor>(vec_at (0, 0, - 1 / 4) 2 - vec_at (my_left example_layers) 2) * layer_h_i example_layers\<rfloor> + 1)"
    and b: "fits_int \<lfloor>(vec_at (0, 0, 5 / 4) 2 - vec_at (my_left example_layers) 2) * layer_h_i example_layers\<rfloor>"
    "fits_int (\<lfloor>(vec_at (0, 0, 5 / 4) 2 - vec_at (my_left example_layers) 2) * layer_h_i example_layers\<rfloor> + 1)"
    and d: "fits_int \<lfloor>(vec_at (0, 0, 9 / 4) 2 - vec_at (my_left example_layers) 2) * layer_h_i example_layers\<rfloor>"
    "fits_int (\<lfloor>(vec_at (0, 0, 9 / 4) 2 - vec_at (my_left example_layers) 2) * layer_h_i example_layers\<rfloor> + 1)"
    unfolding fl by (simp_all add: fits_int_def)
  have c: "layered_cpos example_layers (0, 0, - 1 / 4) = 0"
    "layered_cpos example_layers (0, 0, 5 / 4) = 3"
    "layered_cpos example_layers (0, 0, 9 / 4) = 5"
    by (simp_all add: layered_cpos_def example_layers_def)
  have f: "\<not> LAYERED_BTM_NEIGHBOR example_layers" "LAYERED_TOP_NEIGHBOR example_layers"
    by (simp_all add: LAYERED_BTM_NEIGHBOR_def LAYERED_TOP_NEIGHBOR_def example_layers_def
         LAYERED_BTM_MASK_def LAYERED_TOP_MASK_def LAYERED_BOTTOM_def LAYERED_TOP_def LAYERED_PERIODIC_def)
  show ?thesis
    using layered_position_to_cell_index[OF a n]
          layered_position_to_cell_index[OF b n]
          layered_position_to_cell_index[OF d n]
    by (simp add: c f) (simp add: example_layers_def)
qed


section \<open>Properties of \<open>dp3m_set_params\<close>\<close>

text \<open>
  C2, as stated, fails: an invalid \<open>alpha\<close> is detected after \<open>r_cut\<close>, \<open>mesh\<close> and \<open>cao\<close> have
  been stored, and the dipolar method is switched to \<open>DIPOLAR_P3M\<close> before any argument is
  checked.
\<close>

theorem dp3m_set_params_mutates_on_error:
  "fst (dp3m_set_params 1 8 3 (- 2) 1 (example_dipolar_state DIPOLAR_P3M)) = - 4
   \<and> p3m_r_cut (dp3m_params (example_dipolar_state DIPOLAR_P3M)) = 0
   \<and> p3m_r_cut (dp3m_params (snd (dp3m_set_params 1 8 3 (- 2) 1 (example_dipolar_state DIPOLAR_P3M)))) = 1
   \<and> fst (dp3m_set_params (- 1) 8 3 1 1 (example_dipolar_state (DIPOLAR_OTHER 0))) = - 1
   \<and> dipole_method (snd (dp3m_set_params (- 1) 8 3 1 1 (example_dipolar_state (DIPOLAR_OTHER 0))))
       = DIPOLAR_P3M"
  by (simp add: dp3m_set_params_def example_dipolar_state_def example_p3m_parameters_def
        set_method_local_def Let_def)

lemma dp3m_set_params_accuracy_cases:
  "fst (dp3m_set_params_accuracy accuracy s) = (if accuracy < 0 \<and> accuracy \<noteq> - 1 then - 5 else 0)"
  "dipole_method (snd (dp3m_set_params_accuracy accuracy s)) = dipole_method s"
  "dp_box_l (snd (dp3m_set_params_accuracy accuracy s)) = dp_box_l s"
  "accuracy < 0 \<and> accuracy \<noteq> - 1 \<Longrightarrow> snd (dp3m_set_params_accuracy accuracy s) = s"
  by (auto simp: dp3m_set_params_accuracy_def)

text \<open>
  C2, amended: for every invalid input \<open>dp3m_set_params\<close> returns a negative code, -1 to
  -5 in the order of its checks.  Before the checks the dipolar method becomes
  \<open>DIPOLAR_P3M\<close> unless it is \<open>DIPOLAR_P3M\<close> or \<open>DIPOLAR_MDLC_P3M\<close> already.  For a negative
  \<open>r_cut\<close>, a negative \<open>mesh\<close> and a \<open>cao\<close> out of range the dp3m parameter block is unchanged.
  For an invalid \<open>alpha\<close> (code -4), and for an invalid \<open>accuracy\<close> (code -5) when \<open>alpha\<close> is
  -1, every field of the block other than \<open>r_cut\<close>, \<open>r_cut_iL\<close>, \<open>mesh\<close> and \<open>cao\<close> is unchanged,
  \<open>alpha\<close> and \<open>alpha_L\<close> among them.  For an invalid \<open>accuracy\<close> when \<open>alpha\<close> is positive every
  field other than \<open>r_cut\<close>, \<open>r_cut_iL\<close>, \<open>mesh\<close>, \<open>cao\<close>, \<open>alpha\<close> and \<open>alpha_L\<close> is unchanged.
\<close>

theorem dp3m_set_params_invalid:
  assumes "dp3m_invalid_input r_cut mesh cao alpha accuracy"
  shows "fst (dp3m_set_params r_cut mesh cao alpha accuracy s) < 0
    \<and> fst (dp3m_set_params r_cut mesh cao alpha accuracy s) =
         (if r_cut < 0 then - 1 else if mesh < 0 then - 2
          else if cao < 1 \<or> cao > 7 \<or> cao > mesh then - 3
          else if alpha \<le> 0 \<and> alpha \<noteq> - 1 then - 4 else - 5)
    \<and> dipole_method (snd (dp3m_set_params r_cut mesh cao alpha accuracy s)) =
         (if dipole_method s = DIPOLAR_MDLC_P3M then DIPOLAR_MDLC_P3M else DIPOLAR_P3M)
    \<and> dp_box_l (snd (dp3m_set_params r_cut mesh cao alpha accuracy s)) = dp_box_l s
    \<and> (r_cut < 0 \<or> mesh < 0 \<or> cao < 1 \<or> cao > 7 \<or> cao > mesh \<longrightarrow>
         dp3m_params (snd (dp3m_set_params r_cut mesh cao alpha accuracy s)) = dp3m_params s)
    \<and> (\<not> (r_cut < 0 \<or> mesh < 0 \<or> cao < 1 \<or> cao > 7 \<or> cao > mesh) \<and> \<not> 0 < alpha \<longrightarrow>
         dp3m_params (snd (dp3m_set_params r_cut mesh cao alpha accuracy s)) =
           (dp3m_params s)
             \<lparr>p3m_r_cut := p3m_r_cut (dp3m_params (snd (dp3m_set_params r_cut mesh cao alpha accuracy s))),
              p3m_r_cut_iL := p3m_r_cut_iL (dp3m_params (snd (dp3m_set_params r_cut mesh cao alpha accuracy s))),
              p3m_mesh := p3m_mesh (dp3m_params (snd (dp3m_set_params r_cut mesh cao alpha accuracy s))),
              p3m_cao := p3m_cao (dp3m_params (snd (dp3m_set_params r_cut mesh cao alpha accuracy s)))\<rparr>)
    \<and> (\<not> (r_cut < 0 \<or> mesh < 0 \<or> cao < 1 \<or> cao > 7 \<or> cao > mesh) \<and> 0 < alpha \<longrightarrow>
         dp3m_params (snd (dp3m_set_params r_cut mesh cao alpha accuracy s)) =
           (dp3m_params s)
             \<lparr>p3m_r_cut := p3m_r_cut (dp3m_params (snd (dp3m_set_params r_cut mesh cao alpha accuracy s))),
              p3m_r_cut_iL := p3m_r_cut_iL (dp3m_params (snd (dp3m_set_params r_cut mesh cao alpha accuracy s))),
              p3m_mesh := p3m_mesh (dp3m_params (snd (dp3m_set_params r_cut mesh cao alpha accuracy s))),
              p3m_cao := p3m_cao (dp3m_params (snd (dp3m_set_params r_cut mesh cao alpha accuracy s))),
              p3m_alpha := p3m_alpha (dp3m_params (snd (dp3m_set_params r_cut mesh cao alpha accuracy s))),
              p3m_alpha_L := p3m_alpha_L (dp3m_params (snd (dp3m_set_params r_cut mesh cao alpha accuracy s)))\<rparr>)"
  using assms unfolding dp3m_invalid_input_def dp3m_set_params_def Let_def set_method_local_def
  by (auto simp: dp3m_set_params_accuracy_cases)

theorem dp3m_set_params_invalid_witness:
  "dp3m_invalid_input (- 1) 8 3 1 1
   \<and> fst (dp3m_set_params (- 1) 8 3 1 1 (example_dipolar_state (DIPOLAR_OTHER 0))) = - 1
   \<and> dipole_method (snd (dp3m_set_params (- 1) 8 3 1 1 (example_dipolar_state (DIPOLAR_OTHER 0))))
       = DIPOLAR_P3M
   \<and> dp3m_params (snd (dp3m_set_params (- 1) 8 3 1 1 (example_dipolar_state (DIPOLAR_OTHER 0))))
       = example_p3m_parameters
   \<and> dp3m_invalid_input 1 8 3 (- 2) 1
   \<and> fst (dp3m_set_params 1 8 3 (- 2) 1 (example_dipolar_state DIPOLAR_MDLC_P3M)) = - 4
   \<and> dipole_method (snd (dp3m_set_params 1 8 3 (- 2) 1 (example_dipolar_state DIPOLAR_MDLC_P3M)))
       = DIPOLAR_MDLC_P3M
   \<and> p3m_alpha (dp3m_params (snd (dp3m_set_params 1 8 3 (- 2) 1 (example_dipolar_state DIPOLAR_MDLC_P3M))))
       = p3m_alpha example_p3m_parameters
   \<and> dp3m_invalid_input 1 8 3 2 (- 3)
   \<and> fst (dp3m_set_params 1 8 3 2 (- 3) (example_dipolar_state DIPOLAR_P3M)) = - 5
   \<and> p3m_accuracy (dp3m_params (snd (dp3m_set_params 1 8 3 2 (- 3) (example_dipolar_state DIPOLAR_P3M))))
       = p3m_accuracy example_p3m_parameters"
proof -
  have a: "dp3m_invalid_input (- 1) 8 3 1 1" and b: "dp3m_invalid_input 1 8 3 (- 2) 1"
    and c: "dp3m_invalid_input 1 8 3 2 (- 3)"
    by (simp_all add: dp3m_invalid_input_def)
  note ta = dp3m_set_params_invalid[OF a, of "example_dipolar_state (DIPOLAR_OTHER 0)"]
  note tb = dp3m_set_params_invalid[OF b, of "example_dipolar_state DIPOLAR_MDLC_P3M"]
  note tc = dp3m_set_params_invalid[OF c, of "example_dipolar_state DIPOLAR_P3M"]
  have a2: "fst (dp3m_set_params (- 1) 8 3 1 1 (example_dipolar_state (DIPOLAR_OTHER 0))) = - 1"
    using ta[THEN conjunct2, THEN conjunct1] by simp
  have a3: "dipole_method (snd (dp3m_set_params (- 1) 8 3 1 1 (example_dipolar_state (DIPOLAR_OTHER 0))))
       = DIPOLAR_P3M"
    using ta[THEN conjunct2, THEN conjunct2, THEN conjunct1] by (simp add: example_dipolar_state_def)
  have a5: "dp3m_params (snd (dp3m_set_params (- 1) 8 3 1 1 (example_dipolar_state (DIPOLAR_OTHER 0))))
       = example_p3m_parameters"
    using ta[THEN conjunct2, THEN conjunct2, THEN conjunct2, THEN conjunct2, THEN conjunct1]
    by (simp add: example_dipolar_state_def)
  have b2: "fst (dp3m_set_params 1 8 3 (- 2) 1 (example_dipolar_state DIPOLAR_MDLC_P3M)) = - 4"
    using tb[THEN conjunct2, THEN conjunct1] by simp
  have b3: "dipole_method (snd (dp3m_set_params 1 8 3 (- 2) 1 (example_dipolar_state DIPOLAR_MDLC_P3M)))
       = DIPOLAR_MDLC_P3M"
    using tb[THEN conjunct2, THEN conjunct2, THEN conjunct1] by (simp add: example_dipolar_state_def)
  have b6: "p3m_alpha (dp3m_params (snd (dp3m_set_params 1 8 3 (- 2) 1 (example_dipolar_state DIPOLAR_MDLC_P3M))))
       = p3m_alpha example_p3m_parameters"
  proof -
    have "\<not> ((1::real) < 0 \<or> (8::int) < 0 \<or> (3::int) < 1 \<or> (3::int) > 7 \<or> (3::int) > 8)
            \<and> \<not> 0 < (- 2 :: real)"
      by simp
    from tb[THEN conjunct2, THEN conjunct2, THEN conjunct2, THEN conjunct2, THEN conjunct2,
            THEN conjunct1, rule_format, OF this]
    show ?thesis
      by (rule ssubst) (simp add: example_dipolar_state_def)
  qed
  have c2: "fst (dp3m_set_params 1 8 3 2 (- 3) (example_dipolar_state DIPOLAR_P3M)) = - 5"
    using tc[THEN conjunct2, THEN conjunct1] by simp
  have c7: "p3m_accuracy (dp3m_params (snd (dp3m_set_params 1 8 3 2 (- 3) (example_dipolar_state DIPOLAR_P3M))))
       = p3m_accuracy example_p3m_parameters"
  proof -
    have "\<not> ((1::real) < 0 \<or> (8::int) < 0 \<or> (3::int) < 1 \<or> (3::int) > 7 \<or> (3::int) > 8)
            \<and> 0 < (2 :: real)"
      by simp
    from tc[THEN conjunct2, THEN conjunct2, THEN conjunct2, THEN conjunct2, THEN conjunct2,
            THEN conjunct2, rule_format, OF this]
    show ?thesis
      by (rule ssubst) (simp add: example_dipolar_state_def)
  qed
  from a b c a2 a3 a5 b2 b3 b6 c2 c7 show ?thesis by blast
qed

section \<open>Properties of the MMM2D near formula tuning\<close>

lemma three_over_sqrt2: "1 < 3 / sqrt 2" "3 / sqrt 2 \<le> 3"
proof -
  have "sqrt 2 < 3" by (rule real_less_lsqrt) simp_all
  then show "1 < 3 / sqrt 2" by simp
  have "1 \<le> sqrt 2" by simp
  then show "3 / sqrt 2 \<le> 3" by (simp add: field_simps)
qed

text \<open>
  C7: \<open>MMM2D_tune_near\<close> returns \<open>ERROR_LARGE\<close> (1) when \<open>max_near > Ly / 2\<close>, \<open>ERROR_SMALL\<close> (6)
  when \<open>max_near \<le> Ly / 2\<close> and \<open>min_far < 0\<close>, and \<open>ERROR_BOXL\<close> (2) when additionally
  \<open>min_far \<ge> 0\<close> and \<open>ux * Ly \<ge> 3 / sqrt 2\<close>; when none of the three conditions holds it
  returns 0, \<open>ERROR_BESSEL\<close> or \<open>ERROR_POLY\<close>, so none of the three codes.
\<close>

theorem MMM2D_tune_near_precondition_codes:
  "(mmm2d_max_near S > vec_at (mmm2d_box_l S) 1 / 2 \<longrightarrow>
      fst (MMM2D_tune_near X error S) = ERROR_LARGE \<and> ERROR_LARGE = 1)
   \<and> (mmm2d_max_near S \<le> vec_at (mmm2d_box_l S) 1 / 2 \<and> mmm2d_min_far S < 0 \<longrightarrow>
      fst (MMM2D_tune_near X error S) = ERROR_SMALL \<and> ERROR_SMALL = 6)
   \<and> (mmm2d_max_near S \<le> vec_at (mmm2d_box_l S) 1 / 2 \<and> 0 \<le> mmm2d_min_far S
        \<and> mmm2d_ux S * vec_at (mmm2d_box_l S) 1 \<ge> 3 / sqrt 2 \<longrightarrow>
      fst (MMM2D_tune_near X error S) = ERROR_BOXL \<and> ERROR_BOXL = 2)
   \<and> (mmm2d_max_near S \<le> vec_at (mmm2d_box_l S) 1 / 2 \<and> 0 \<le> mmm2d_min_far S
        \<and> mmm2d_ux S * vec_at (mmm2d_box_l S) 1 < 3 / sqrt 2 \<longrightarrow>
      fst (MMM2D_tune_near X error S) \<in> {0, ERROR_BESSEL, ERROR_POLY}
      \<and> fst (MMM2D_tune_near X error S) \<notin> {ERROR_LARGE, ERROR_SMALL, ERROR_BOXL})"
  unfolding MMM2D_tune_near_def Let_def
  by (auto simp: ERROR_LARGE_def ERROR_SMALL_def ERROR_BOXL_def ERROR_BESSEL_def ERROR_POLY_def)

theorem MMM2D_tune_near_precondition_codes_witness:
  "fst (MMM2D_tune_near example_mmm2d_externals (1 / 100) (example_mmm2d_state 1 1 1)) = 1
   \<and> fst (MMM2D_tune_near example_mmm2d_externals (1 / 100) (example_mmm2d_state (1 / 2) (- 1) 1)) = 6
   \<and> fst (MMM2D_tune_near example_mmm2d_externals (1 / 100) (example_mmm2d_state (1 / 2) 0 3)) = 2
   \<and> fst (MMM2D_tune_near example_mmm2d_externals (1 / 100) (example_mmm2d_state (1 / 2) 0 1))
         \<notin> {1, 2, 6}"
proof -
  have sel: "mmm2d_max_near (example_mmm2d_state near far u) = near"
    "mmm2d_min_far (example_mmm2d_state near far u) = far"
    "mmm2d_ux (example_mmm2d_state near far u) = u"
    "vec_at (mmm2d_box_l (example_mmm2d_state near far u)) (Suc 0) = 1" for near far u
    by (simp_all add: example_mmm2d_state_def)
  have h1: "mmm2d_max_near (example_mmm2d_state 1 1 1)
              > vec_at (mmm2d_box_l (example_mmm2d_state 1 1 1)) 1 / 2"
    by (simp add: sel)
  have h2: "mmm2d_max_near (example_mmm2d_state (1 / 2) (- 1) 1)
              \<le> vec_at (mmm2d_box_l (example_mmm2d_state (1 / 2) (- 1) 1)) 1 / 2
            \<and> mmm2d_min_far (example_mmm2d_state (1 / 2) (- 1) 1) < 0"
    by (simp add: sel)
  have h3: "mmm2d_max_near (example_mmm2d_state (1 / 2) 0 3)
              \<le> vec_at (mmm2d_box_l (example_mmm2d_state (1 / 2) 0 3)) 1 / 2
            \<and> 0 \<le> mmm2d_min_far (example_mmm2d_state (1 / 2) 0 3)
            \<and> mmm2d_ux (example_mmm2d_state (1 / 2) 0 3)
                  * vec_at (mmm2d_box_l (example_mmm2d_state (1 / 2) 0 3)) 1 \<ge> 3 / sqrt 2"
    using three_over_sqrt2(2) by (simp add: sel)
  have h4: "mmm2d_max_near (example_mmm2d_state (1 / 2) 0 1)
              \<le> vec_at (mmm2d_box_l (example_mmm2d_state (1 / 2) 0 1)) 1 / 2
            \<and> 0 \<le> mmm2d_min_far (example_mmm2d_state (1 / 2) 0 1)
            \<and> mmm2d_ux (example_mmm2d_state (1 / 2) 0 1)
                  * vec_at (mmm2d_box_l (example_mmm2d_state (1 / 2) 0 1)) 1 < 3 / sqrt 2"
    using three_over_sqrt2(1) by (simp add: sel)
  note t = MMM2D_tune_near_precondition_codes[of _ example_mmm2d_externals "1 / 100"]
  have r1: "fst (MMM2D_tune_near example_mmm2d_externals (1 / 100) (example_mmm2d_state 1 1 1)) = 1"
    using t[THEN conjunct1, rule_format, OF h1] by simp
  have r2: "fst (MMM2D_tune_near example_mmm2d_externals (1 / 100) (example_mmm2d_state (1 / 2) (- 1) 1)) = 6"
    using t[THEN conjunct2, THEN conjunct1, rule_format, OF h2] by simp
  have r3: "fst (MMM2D_tune_near example_mmm2d_externals (1 / 100) (example_mmm2d_state (1 / 2) 0 3)) = 2"
    using t[THEN conjunct2, THEN conjunct2, THEN conjunct1, rule_format, OF h3] by simp
  have r4: "fst (MMM2D_tune_near example_mmm2d_externals (1 / 100) (example_mmm2d_state (1 / 2) 0 1))
         \<notin> {1, 2, 6}"
    using t[THEN conjunct2, THEN conjunct2, THEN conjunct2, rule_format, OF h4]
    by (simp add: ERROR_LARGE_def ERROR_SMALL_def ERROR_BOXL_def)
  from r1 r2 r3 r4 show ?thesis by blast
qed

section \<open>Properties of the affinity force\<close>










section \<open>Properties of the dipolar P3M influence functions\<close>























end
